theory Spec2Isabelle
  imports Complex_Main "HOL-Library.Word"
begin

unbundle bit_operations_syntax

section \<open>Data model\<close>

text \<open>
  The C++ \<^verbatim>\<open>double\<close> is modelled by \<^typ>\<open>real\<close> (exact arithmetic, no rounding,
  no NaN, no infinity), the 32-bit C++ \<^verbatim>\<open>int\<close> by the values of \<^typ>\<open>int\<close> between
  \<open>INT_MIN\<close> and \<open>INT_MAX\<close>, with the conversion from \<^verbatim>\<open>double\<close> and the overflow of the
  product of the grid dimensions written out in \<open>static_cast_int\<close> and \<open>initialize\<close>,
  \<^verbatim>\<open>size_t\<close> atom ids by \<^typ>\<open>nat\<close> and \<^verbatim>\<open>size_t\<close> hash codes by 64-bit words. A
  \<^verbatim>\<open>std::vector\<close> is a list.
\<close>

text \<open>\<^verbatim>\<open>struct Point3D { double x, y, z; }\<close> (BoundingBox.hpp).\<close>

record Point3D =
  px :: real
  py :: real
  pz :: real

text \<open>
  \<^verbatim>\<open>class Atom\<close> (Atom.hpp): the fields this subsystem reads, named after their
  getters.
\<close>

record Atom =
  getX :: real
  getY :: real
  getZ :: real
  getAtomicRadius :: real
  getId :: nat

text \<open>\<^verbatim>\<open>class BoundingBox\<close>: the members \<^verbatim>\<open>min_\<close> and \<^verbatim>\<open>max_\<close>, named after their getters.\<close>

record BoundingBox =
  getMin :: Point3D
  getMax :: Point3D

text \<open>
  The failures of the constructors: \<^verbatim>\<open>std::runtime_error\<close> of the bounding box on an
  empty atom vector (the spec's EmptyInput), \<^verbatim>\<open>std::invalid_argument\<close> of the voxel grid
  (the spec's InvalidArgument), and the overflow of the \<^verbatim>\<open>int\<close> product of the grid
  dimensions (\<open>IntOverflow\<close>), after which the C++ builds no grid: the wrapped total is
  negative and \<^verbatim>\<open>resize\<close> throws \<^verbatim>\<open>std::length_error\<close>, or the run has undefined behaviour.
\<close>

datatype error = EmptyInput | InvalidArgument | IntOverflow

text \<open>\<^verbatim>\<open>struct Voxel\<close> (VoxelGrid.hpp); \<^verbatim>\<open>VoxelIndex\<close> is the triple (i, j, k).\<close>

record Voxel =
  index :: "int \<times> int \<times> int"
  center :: Point3D
  vmin :: Point3D
  vmax :: Point3D
  occupied :: bool
  atomIds :: "nat list"

text \<open>
  \<^verbatim>\<open>class VoxelGrid\<close>. The lookup table \<^verbatim>\<open>voxelGrid_\<close> holds, per linear cell index,
  \<^verbatim>\<open>nullptr\<close> (\<open>None\<close>) or the address of an element of \<^verbatim>\<open>occupiedVoxels_\<close>, modelled
  by the position of that element in the vector. Whether a stored address is still valid
  after the vector has grown is outside the model; the properties below read the table for
  null and non-null entries only.
\<close>

record VoxelGrid =
  boundingBox :: BoundingBox
  voxelSize :: real
  dimensions :: "int list"
  totalVoxels :: int
  occupiedVoxels :: "Voxel list"
  emptyVoxels :: "Voxel list"
  voxelGrid :: "nat option list"

text \<open>\<^verbatim>\<open>struct HexMesh\<close> (HexMesh.hpp).\<close>

record HexMesh =
  nodes :: "Point3D list"
  elements :: "int list list"

section \<open>BoundingBox\<close>

text \<open>\<^verbatim>\<open>std::numeric_limits<double>::max()\<close>; \<^verbatim>\<open>lowest()\<close> is its negation.\<close>

definition DBL_MAX :: real where
  "DBL_MAX = (2 - 1 / 2 ^ 52) * 2 ^ 1023"

text \<open>The loop of \<^verbatim>\<open>BoundingBox::calculateBounds\<close> over the atoms.\<close>

fun calculateBounds_loop ::
  "Atom list \<Rightarrow> real \<times> real \<times> real \<times> real \<times> real \<times> real
     \<Rightarrow> real \<times> real \<times> real \<times> real \<times> real \<times> real" where
  "calculateBounds_loop [] acc = acc"
| "calculateBounds_loop (atom # rest) (minX, minY, minZ, maxX, maxY, maxZ) =
     (let x = getX atom; y = getY atom; z = getZ atom; radius = getAtomicRadius atom in
      calculateBounds_loop rest
        (min minX (x - radius), min minY (y - radius), min minZ (z - radius),
         max maxX (x + radius), max maxY (y + radius), max maxZ (z + radius)))"

definition calculateBounds :: "Atom list \<Rightarrow> real \<Rightarrow> BoundingBox" where
  "calculateBounds atoms padding =
     (case calculateBounds_loop atoms
             (DBL_MAX, DBL_MAX, DBL_MAX, - DBL_MAX, - DBL_MAX, - DBL_MAX) of
        (minX, minY, minZ, maxX, maxY, maxZ) \<Rightarrow>
          \<lparr>getMin = \<lparr>px = minX - padding, py = minY - padding, pz = minZ - padding\<rparr>,
           getMax = \<lparr>px = maxX + padding, py = maxY + padding, pz = maxZ + padding\<rparr>\<rparr>)"

text \<open>The constructor \<^verbatim>\<open>BoundingBox(atoms, padding)\<close>.\<close>

definition BoundingBox_ctor :: "Atom list \<Rightarrow> real \<Rightarrow> error + BoundingBox" where
  "BoundingBox_ctor atoms padding =
     (if atoms = [] then Inl EmptyInput else Inr (calculateBounds atoms padding))"

definition getDimensions :: "BoundingBox \<Rightarrow> Point3D" where
  "getDimensions b =
     \<lparr>px = px (getMax b) - px (getMin b),
      py = py (getMax b) - py (getMin b),
      pz = pz (getMax b) - pz (getMin b)\<rparr>"

section \<open>VoxelGrid\<close>

text \<open>\<^verbatim>\<open>VoxelGrid::getLinearIndex\<close>.\<close>

definition getLinearIndex :: "VoxelGrid \<Rightarrow> int \<Rightarrow> int \<Rightarrow> int \<Rightarrow> int" where
  "getLinearIndex g i j k =
     i + j * (dimensions g ! 0) + k * (dimensions g ! 0) * (dimensions g ! 1)"

text \<open>
  \<^verbatim>\<open>VoxelGrid::isVoxelOccupied\<close>: the loop appends the id of every atom whose sphere
  holds the centre; the function returns the flag and the filled output vector.
\<close>

fun isVoxelOccupied_loop :: "Point3D \<Rightarrow> Atom list \<Rightarrow> nat list \<Rightarrow> nat list" where
  "isVoxelOccupied_loop voxelCenter [] intersectingAtomIds = intersectingAtomIds"
| "isVoxelOccupied_loop voxelCenter (atom # rest) intersectingAtomIds =
     (let dx = px voxelCenter - getX atom;
          dy = py voxelCenter - getY atom;
          dz = pz voxelCenter - getZ atom;
          distanceSquared = dx * dx + dy * dy + dz * dz;
          radius = getAtomicRadius atom
      in isVoxelOccupied_loop voxelCenter rest
           (if distanceSquared \<le> radius * radius
            then intersectingAtomIds @ [getId atom]
            else intersectingAtomIds))"

definition isVoxelOccupied :: "Point3D \<Rightarrow> Atom list \<Rightarrow> bool \<times> nat list" where
  "isVoxelOccupied voxelCenter atoms =
     (let intersectingAtomIds = isVoxelOccupied_loop voxelCenter atoms []
      in (intersectingAtomIds \<noteq> [], intersectingAtomIds))"

text \<open>The voxel that the body of the innermost loop of \<^verbatim>\<open>initialize\<close> builds for (i, j, k).\<close>

definition make_voxel :: "BoundingBox \<Rightarrow> real \<Rightarrow> Atom list \<Rightarrow> int \<Rightarrow> int \<Rightarrow> int \<Rightarrow> Voxel" where
  "make_voxel bb vs atoms i j k =
     (let mn = getMin bb;
          lo = \<lparr>px = px mn + of_int i * vs, py = py mn + of_int j * vs, pz = pz mn + of_int k * vs\<rparr>;
          hi = \<lparr>px = px lo + vs, py = py lo + vs, pz = pz lo + vs\<rparr>;
          c = \<lparr>px = px lo + vs * (1 / 2), py = py lo + vs * (1 / 2), pz = pz lo + vs * (1 / 2)\<rparr>;
          r = isVoxelOccupied c atoms
      in \<lparr>index = (i, j, k), center = c, vmin = lo, vmax = hi,
          occupied = fst r, atomIds = snd r\<rparr>)"

text \<open>
  The body of the innermost loop: build the voxel, push it on the occupied or the empty
  vector, and for an occupied one store the address of the pushed element in the table.
\<close>

definition initialize_cell :: "Atom list \<Rightarrow> int \<Rightarrow> int \<Rightarrow> int \<Rightarrow> VoxelGrid \<Rightarrow> VoxelGrid" where
  "initialize_cell atoms k j i g =
     (let voxel = make_voxel (boundingBox g) (voxelSize g) atoms i j k in
      if occupied voxel
      then g\<lparr>occupiedVoxels := occupiedVoxels g @ [voxel],
             voxelGrid := (voxelGrid g)[nat (getLinearIndex g i j k) := Some (length (occupiedVoxels g))]\<rparr>
      else g\<lparr>emptyVoxels := emptyVoxels g @ [voxel]\<rparr>)"

text \<open>The bounds of the 32-bit \<^verbatim>\<open>int\<close>.\<close>

definition INT_MAX :: int where
  "INT_MAX = 2147483647"

definition INT_MIN :: int where
  "INT_MIN = - 2147483648"

text \<open>
  \<^verbatim>\<open>static_cast<int>\<close> of a \<^verbatim>\<open>double\<close> whose value is the integer \<open>c\<close> (the result of
  \<^verbatim>\<open>std::ceil\<close>). Within the range of \<^verbatim>\<open>int\<close> it is \<open>c\<close>. Outside the range the
  conversion is undefined in C++; the model takes the value the conversion instruction of
  x86-64 yields, \<open>INT_MIN\<close>.
\<close>

definition static_cast_int :: "int \<Rightarrow> int" where
  "static_cast_int c = (if INT_MIN \<le> c \<and> c \<le> INT_MAX then c else INT_MIN)"

text \<open>
  \<^verbatim>\<open>VoxelGrid::initialize\<close>, on the object whose \<^verbatim>\<open>boundingBox_\<close> and \<^verbatim>\<open>voxelSize_\<close> the
  constructor has set: dimensions, total, the table filled with \<^verbatim>\<open>nullptr\<close>, then the
  three nested loops (k outermost, i innermost). The dimensions are at least 1, so the
  \<^verbatim>\<open>int\<close> product \<^verbatim>\<open>dimensions_[0] * dimensions_[1] * dimensions_[2]\<close> overflows exactly when
  its value exceeds \<open>INT_MAX\<close>; no grid is built then.
\<close>

definition initialize :: "Atom list \<Rightarrow> VoxelGrid \<Rightarrow> error + VoxelGrid" where
  "initialize atoms g0 =
     (let dims = getDimensions (boundingBox g0);
          d0 = max 1 (static_cast_int \<lceil>px dims / voxelSize g0\<rceil>);
          d1 = max 1 (static_cast_int \<lceil>py dims / voxelSize g0\<rceil>);
          d2 = max 1 (static_cast_int \<lceil>pz dims / voxelSize g0\<rceil>);
          total = d0 * d1 * d2
      in if INT_MAX < total then Inl IntOverflow
         else
           (let g1 = g0\<lparr>dimensions := [d0, d1, d2], totalVoxels := total,
                       voxelGrid := replicate (nat total) None\<rparr>
            in Inr (fold (\<lambda>k. fold (\<lambda>j. fold (\<lambda>i. initialize_cell atoms k j i) [0..d0 - 1])
                              [0..d1 - 1])
                      [0..d2 - 1] g1)))"

text \<open>The object before the constructor body runs: members set by the initialiser list,
  the vectors empty.\<close>

definition fresh_grid :: "BoundingBox \<Rightarrow> real \<Rightarrow> VoxelGrid" where
  "fresh_grid bb vs =
     \<lparr>boundingBox = bb, voxelSize = vs, dimensions = [0, 0, 0], totalVoxels = 0,
      occupiedVoxels = [], emptyVoxels = [], voxelGrid = []\<rparr>"

text \<open>
  \<^verbatim>\<open>VoxelGrid(atoms, voxelSize, padding)\<close>: the member initialiser builds the bounding box
  (and may throw) before the body checks the voxel size.
\<close>

definition VoxelGrid_from_atoms :: "Atom list \<Rightarrow> real \<Rightarrow> real \<Rightarrow> error + VoxelGrid" where
  "VoxelGrid_from_atoms atoms vs padding =
     (case BoundingBox_ctor atoms padding of
        Inl e \<Rightarrow> Inl e
      | Inr bb \<Rightarrow>
          if vs \<le> 0 then Inl InvalidArgument
          else initialize atoms (fresh_grid bb vs))"

text \<open>\<^verbatim>\<open>VoxelGrid(boundingBox, atoms, voxelSize)\<close>.\<close>

definition VoxelGrid_from_box :: "BoundingBox \<Rightarrow> Atom list \<Rightarrow> real \<Rightarrow> error + VoxelGrid" where
  "VoxelGrid_from_box bb atoms vs =
     (if vs \<le> 0 then Inl InvalidArgument
      else initialize atoms (fresh_grid bb vs))"

definition getTotalVoxelCount :: "VoxelGrid \<Rightarrow> int" where
  "getTotalVoxelCount g = totalVoxels g"

definition getOccupiedVoxelCount :: "VoxelGrid \<Rightarrow> int" where
  "getOccupiedVoxelCount g = int (length (occupiedVoxels g))"

definition getEmptyVoxelCount :: "VoxelGrid \<Rightarrow> int" where
  "getEmptyVoxelCount g = int (length (emptyVoxels g))"

text \<open>\<^verbatim>\<open>VoxelGrid::getVoxel\<close>: \<open>None\<close> is \<^verbatim>\<open>nullptr\<close>.\<close>

definition getVoxel :: "VoxelGrid \<Rightarrow> int \<Rightarrow> int \<Rightarrow> int \<Rightarrow> nat option" where
  "getVoxel g i j k =
     (if i < 0 \<or> i \<ge> dimensions g ! 0 \<or>
         j < 0 \<or> j \<ge> dimensions g ! 1 \<or>
         k < 0 \<or> k \<ge> dimensions g ! 2
      then None
      else voxelGrid g ! nat (getLinearIndex g i j k))"

section \<open>Hexahedral mesh of the empty voxels\<close>

text \<open>\<^verbatim>\<open>EmptyVoxelMeshGenerator::computeCornerNodes\<close>.\<close>

definition computeCornerNodes :: "Voxel \<Rightarrow> Point3D list" where
  "computeCornerNodes voxel =
     [\<lparr>px = px (vmin voxel), py = py (vmin voxel), pz = pz (vmin voxel)\<rparr>,
      \<lparr>px = px (vmax voxel), py = py (vmin voxel), pz = pz (vmin voxel)\<rparr>,
      \<lparr>px = px (vmax voxel), py = py (vmax voxel), pz = pz (vmin voxel)\<rparr>,
      \<lparr>px = px (vmin voxel), py = py (vmax voxel), pz = pz (vmin voxel)\<rparr>,
      \<lparr>px = px (vmin voxel), py = py (vmin voxel), pz = pz (vmax voxel)\<rparr>,
      \<lparr>px = px (vmax voxel), py = py (vmin voxel), pz = pz (vmax voxel)\<rparr>,
      \<lparr>px = px (vmax voxel), py = py (vmax voxel), pz = pz (vmax voxel)\<rparr>,
      \<lparr>px = px (vmin voxel), py = py (vmax voxel), pz = pz (vmax voxel)\<rparr>]"

text \<open>
  \<^verbatim>\<open>Point3DHash\<close> (HexMesh.hpp). \<^verbatim>\<open>std::hash<double>\<close> belongs to the C++ library, not to
  the repository: it is the parameter \<open>hashDouble\<close>, and \<^verbatim>\<open>size_t\<close> is 64 bits wide.
\<close>

definition Point3DHash :: "(real \<Rightarrow> 64 word) \<Rightarrow> Point3D \<Rightarrow> 64 word" where
  "Point3DHash hashDouble p =
     (let h1 = hashDouble (px p); h2 = hashDouble (py p); h3 = hashDouble (pz p)
      in h1 XOR (push_bit 1 h2) XOR (push_bit 2 h3))"

text \<open>\<^verbatim>\<open>Point3DEqual\<close> (HexMesh.hpp).\<close>

definition Point3DEqual :: "Point3D \<Rightarrow> Point3D \<Rightarrow> bool" where
  "Point3DEqual lhs rhs =
     (let epsilon = 1 / 10 ^ 12
      in \<bar>px lhs - px rhs\<bar> < epsilon \<and> \<bar>py lhs - py rhs\<bar> < epsilon \<and> \<bar>pz lhs - pz rhs\<bar> < epsilon)"

text \<open>
  \<^verbatim>\<open>std::unordered_map<Point3D, int, Point3DHash, Point3DEqual>::find\<close>. The map is the list
  of its elements in insertion order. A lookup goes to the bucket of the key's hash code and
  accepts a stored element when its hash code is the key's and \<^verbatim>\<open>Point3DEqual\<close> holds of
  the two keys (the hash table compares the stored code before it calls the comparator);
  \<open>None\<close> is \<^verbatim>\<open>end()\<close>. Where several stored elements are accepted the table's bucket order
  decides; the model takes the oldest.
\<close>

fun map_find :: "(real \<Rightarrow> 64 word) \<Rightarrow> (Point3D \<times> int) list \<Rightarrow> Point3D \<Rightarrow> int option" where
  "map_find hashDouble [] corner = None"
| "map_find hashDouble ((key, idx) # rest) corner =
     (if Point3DHash hashDouble key = Point3DHash hashDouble corner \<and> Point3DEqual key corner then Some idx
      else map_find hashDouble rest corner)"

text \<open>
  The inner loop of \<^verbatim>\<open>assignUniqueNodeIndices\<close> over the corners of one element. The state
  is \<^verbatim>\<open>nodeMap\<close>, \<^verbatim>\<open>uniqueNodes\<close> and \<^verbatim>\<open>nextNodeIndex\<close>; the last argument is the
  connectivity filled so far.
\<close>

fun assign_corners ::
  "(real \<Rightarrow> 64 word) \<Rightarrow> Point3D list \<Rightarrow> (Point3D \<times> int) list \<times> Point3D list \<times> int \<Rightarrow> int list
     \<Rightarrow> ((Point3D \<times> int) list \<times> Point3D list \<times> int) \<times> int list" where
  "assign_corners hashDouble [] st elementConnectivity = (st, elementConnectivity)"
| "assign_corners hashDouble (corner # rest) (nodeMap, uniqueNodes, nextNodeIndex) elementConnectivity =
     (case map_find hashDouble nodeMap corner of
        Some idx \<Rightarrow>
          assign_corners hashDouble rest (nodeMap, uniqueNodes, nextNodeIndex) (elementConnectivity @ [idx])
      | None \<Rightarrow>
          assign_corners hashDouble rest
            (nodeMap @ [(corner, nextNodeIndex)], uniqueNodes @ [corner], nextNodeIndex + 1)
            (elementConnectivity @ [nextNodeIndex]))"

text \<open>The outer loop over the elements.\<close>

fun assign_elements ::
  "(real \<Rightarrow> 64 word) \<Rightarrow> Point3D list list \<Rightarrow> (Point3D \<times> int) list \<times> Point3D list \<times> int
     \<Rightarrow> int list list \<Rightarrow> ((Point3D \<times> int) list \<times> Point3D list \<times> int) \<times> int list list" where
  "assign_elements hashDouble [] st elems = (st, elems)"
| "assign_elements hashDouble (elementCorners # rest) st elems =
     (case assign_corners hashDouble elementCorners st [] of
        (st', elementConnectivity) \<Rightarrow> assign_elements hashDouble rest st' (elems @ [elementConnectivity]))"

text \<open>
  \<^verbatim>\<open>EmptyVoxelMeshGenerator::assignUniqueNodeIndices\<close>: returns the elements and the two
  containers passed by reference.
\<close>

definition assignUniqueNodeIndices ::
  "(real \<Rightarrow> 64 word) \<Rightarrow> Point3D list list \<Rightarrow> (Point3D \<times> int) list \<Rightarrow> Point3D list
     \<Rightarrow> int list list \<times> (Point3D \<times> int) list \<times> Point3D list" where
  "assignUniqueNodeIndices hashDouble cornerNodes nodeMap uniqueNodes =
     (case assign_elements hashDouble cornerNodes (nodeMap, uniqueNodes, 0) [] of
        ((nodeMap', uniqueNodes', nextNodeIndex), elems) \<Rightarrow> (elems, nodeMap', uniqueNodes'))"

text \<open>\<^verbatim>\<open>EmptyVoxelMeshGenerator::generateHexMesh\<close>.\<close>

definition generateHexMesh :: "(real \<Rightarrow> 64 word) \<Rightarrow> VoxelGrid \<Rightarrow> HexMesh" where
  "generateHexMesh hashDouble grid =
     (if emptyVoxels grid = [] then \<lparr>nodes = [], elements = []\<rparr>
      else
        (let allCornerNodes = map computeCornerNodes (emptyVoxels grid)
         in case assignUniqueNodeIndices hashDouble allCornerNodes [] [] of
              (elems, nodeMap, uniqueNodes) \<Rightarrow> \<lparr>nodes = uniqueNodes, elements = elems\<rparr>))"

definition getNodeCount :: "HexMesh \<Rightarrow> nat" where
  "getNodeCount mesh = length (nodes mesh)"

definition getElementCount :: "HexMesh \<Rightarrow> nat" where
  "getElementCount mesh = length (elements mesh)"

section \<open>Notions of the specification\<close>

text \<open>
  The occupancy test of the specification: the squared distance from the point to the
  atom's position is at most the atom's radius squared.
\<close>

definition sphere_contains :: "Point3D \<Rightarrow> Atom \<Rightarrow> bool" where
  "sphere_contains c a =
     ((px c - getX a) * (px c - getX a) + (py c - getY a) * (py c - getY a)
        + (pz c - getZ a) * (pz c - getZ a) \<le> getAtomicRadius a * getAtomicRadius a)"

text \<open>
  The number of cells \<^verbatim>\<open>initialize\<close> computes for an axis of the given extent, and the
  three dimensions of the grid over a bounding box.
\<close>

definition grid_dim :: "real \<Rightarrow> real \<Rightarrow> int" where
  "grid_dim extent vs = max 1 (static_cast_int \<lceil>extent / vs\<rceil>)"

definition dims_of :: "BoundingBox \<Rightarrow> real \<Rightarrow> int \<times> int \<times> int" where
  "dims_of bb vs =
     (grid_dim (px (getDimensions bb)) vs, grid_dim (py (getDimensions bb)) vs,
      grid_dim (pz (getDimensions bb)) vs)"

text \<open>
  On each axis the number \<open>\<lceil>extent / size\<rceil>\<close> lies in the range of \<^verbatim>\<open>int\<close>, so its
  conversion is exact.
\<close>

definition dims_fit :: "BoundingBox \<Rightarrow> real \<Rightarrow> bool" where
  "dims_fit bb vs =
     (INT_MIN \<le> \<lceil>px (getDimensions bb) / vs\<rceil> \<and> \<lceil>px (getDimensions bb) / vs\<rceil> \<le> INT_MAX \<and>
      INT_MIN \<le> \<lceil>py (getDimensions bb) / vs\<rceil> \<and> \<lceil>py (getDimensions bb) / vs\<rceil> \<le> INT_MAX \<and>
      INT_MIN \<le> \<lceil>pz (getDimensions bb) / vs\<rceil> \<and> \<lceil>pz (getDimensions bb) / vs\<rceil> \<le> INT_MAX)"

text \<open>The product of the three dimensions lies in the range of \<^verbatim>\<open>int\<close>.\<close>

definition total_fits :: "BoundingBox \<Rightarrow> real \<Rightarrow> bool" where
  "total_fits bb vs =
     (fst (dims_of bb vs) * fst (snd (dims_of bb vs)) * snd (snd (dims_of bb vs)) \<le> INT_MAX)"

text \<open>The index (i, j, k) lies within the grid dimensions.\<close>

definition in_grid :: "VoxelGrid \<Rightarrow> int \<Rightarrow> int \<Rightarrow> int \<Rightarrow> bool" where
  "in_grid g i j k =
     (0 \<le> i \<and> i < dimensions g ! 0 \<and> 0 \<le> j \<and> j < dimensions g ! 1 \<and>
      0 \<le> k \<and> k < dimensions g ! 2)"

text \<open>
  Global node uniqueness: any two nodes at distinct positions of the list differ by 1e-12
  or more on at least one axis.
\<close>

definition nodes_unique :: "Point3D list \<Rightarrow> bool" where
  "nodes_unique ns =
     (\<forall>i < length ns. \<forall>j < length ns. i \<noteq> j \<longrightarrow>
        (1 / 10 ^ 12 \<le> \<bar>px (ns ! i) - px (ns ! j)\<bar> \<or> 1 / 10 ^ 12 \<le> \<bar>py (ns ! i) - py (ns ! j)\<bar> \<or>
         1 / 10 ^ 12 \<le> \<bar>pz (ns ! i) - pz (ns ! j)\<bar>))"

text \<open>A hash of the coordinates is consistent with the comparator when points that compare
  equal have equal hash codes.\<close>

definition hash_consistent :: "(real \<Rightarrow> 64 word) \<Rightarrow> bool" where
  "hash_consistent hashDouble =
     (\<forall>p q. Point3DEqual p q \<longrightarrow> Point3DHash hashDouble p = Point3DHash hashDouble q)"

section \<open>Notions of the proofs\<close>

text \<open>
  The cells in the order of the three nested loops of \<^verbatim>\<open>initialize\<close>, the loop body on a
  cell, the voxel it builds and the slot of the table it writes.
\<close>

definition cells :: "int \<Rightarrow> int \<Rightarrow> int \<Rightarrow> (int \<times> int \<times> int) list" where
  "cells d0 d1 d2 =
     concat (map (\<lambda>k. concat (map (\<lambda>j. map (\<lambda>i. (i, j, k)) [0..d0 - 1]) [0..d1 - 1])) [0..d2 - 1])"

definition cell_step :: "Atom list \<Rightarrow> int \<times> int \<times> int \<Rightarrow> VoxelGrid \<Rightarrow> VoxelGrid" where
  "cell_step atoms c = (case c of (i, j, k) \<Rightarrow> initialize_cell atoms k j i)"

definition cell_voxel :: "VoxelGrid \<Rightarrow> Atom list \<Rightarrow> int \<times> int \<times> int \<Rightarrow> Voxel" where
  "cell_voxel g atoms c = (case c of (i, j, k) \<Rightarrow> make_voxel (boundingBox g) (voxelSize g) atoms i j k)"

definition cell_slot :: "VoxelGrid \<Rightarrow> int \<times> int \<times> int \<Rightarrow> nat" where
  "cell_slot g c = (case c of (i, j, k) \<Rightarrow> nat (getLinearIndex g i j k))"

text \<open>The grid before the loops of \<^verbatim>\<open>initialize\<close> run, its cells, and the grid after them.\<close>

definition start_grid :: "BoundingBox \<Rightarrow> real \<Rightarrow> VoxelGrid" where
  "start_grid bb vs =
     (case dims_of bb vs of (d0, d1, d2) \<Rightarrow>
        (fresh_grid bb vs)\<lparr>dimensions := [d0, d1, d2], totalVoxels := d0 * d1 * d2,
                voxelGrid := replicate (nat (d0 * d1 * d2)) None\<rparr>)"

definition grid_cells :: "BoundingBox \<Rightarrow> real \<Rightarrow> (int \<times> int \<times> int) list" where
  "grid_cells bb vs = (case dims_of bb vs of (d0, d1, d2) \<Rightarrow> cells d0 d1 d2)"

definition built_grid :: "Atom list \<Rightarrow> BoundingBox \<Rightarrow> real \<Rightarrow> VoxelGrid" where
  "built_grid atoms bb vs = fold (cell_step atoms) (grid_cells bb vs) (start_grid bb vs)"

section \<open>Concrete inputs\<close>

text \<open>
  A box of 2 x 1 x 1 unit cells, an atom inside its first cell, and the grids the
  constructor builds from them with voxel size 1, with and without the atom.
\<close>

definition example_box :: BoundingBox where
  "example_box = \<lparr>getMin = \<lparr>px = 0, py = 0, pz = 0\<rparr>, getMax = \<lparr>px = 2, py = 1, pz = 1\<rparr>\<rparr>"

definition example_atom :: Atom where
  "example_atom = \<lparr>getX = 1 / 2, getY = 1 / 2, getZ = 1 / 2, getAtomicRadius = 1 / 4, getId = 7\<rparr>"

definition left_voxel :: Voxel where
  "left_voxel =
     \<lparr>index = (0, 0, 0), center = \<lparr>px = 1 / 2, py = 1 / 2, pz = 1 / 2\<rparr>,
      vmin = \<lparr>px = 0, py = 0, pz = 0\<rparr>, vmax = \<lparr>px = 1, py = 1, pz = 1\<rparr>,
      occupied = False, atomIds = []\<rparr>"

definition right_voxel :: Voxel where
  "right_voxel =
     \<lparr>index = (1, 0, 0), center = \<lparr>px = 3 / 2, py = 1 / 2, pz = 1 / 2\<rparr>,
      vmin = \<lparr>px = 1, py = 0, pz = 0\<rparr>, vmax = \<lparr>px = 2, py = 1, pz = 1\<rparr>,
      occupied = False, atomIds = []\<rparr>"

definition example_grid :: VoxelGrid where
  "example_grid =
     \<lparr>boundingBox = example_box, voxelSize = 1, dimensions = [2, 1, 1], totalVoxels = 2,
      occupiedVoxels = [left_voxel\<lparr>occupied := True, atomIds := [7]\<rparr>],
      emptyVoxels = [right_voxel], voxelGrid = [Some 0, None]\<rparr>"

definition two_voxel_grid :: VoxelGrid where
  "two_voxel_grid =
     \<lparr>boundingBox = example_box, voxelSize = 1, dimensions = [2, 1, 1], totalVoxels = 2,
      occupiedVoxels = [], emptyVoxels = [left_voxel, right_voxel], voxelGrid = [None, None]\<rparr>"

text \<open>
  A point atom at the origin and the grid of voxel size 5e-13 built from it: one empty
  voxel, whose eight corners are pairwise within the tolerance 1e-12.
\<close>

definition point_atom :: Atom where
  "point_atom = \<lparr>getX = 0, getY = 0, getZ = 0, getAtomicRadius = 0, getId = 0\<rparr>"

definition tiny_voxel :: Voxel where
  "tiny_voxel =
     \<lparr>index = (0, 0, 0),
      center = \<lparr>px = 25 / 10 ^ 14, py = 25 / 10 ^ 14, pz = 25 / 10 ^ 14\<rparr>,
      vmin = \<lparr>px = 0, py = 0, pz = 0\<rparr>,
      vmax = \<lparr>px = 5 / 10 ^ 13, py = 5 / 10 ^ 13, pz = 5 / 10 ^ 13\<rparr>,
      occupied = False, atomIds = []\<rparr>"

definition tiny_grid :: VoxelGrid where
  "tiny_grid =
     \<lparr>boundingBox = \<lparr>getMin = \<lparr>px = 0, py = 0, pz = 0\<rparr>, getMax = \<lparr>px = 0, py = 0, pz = 0\<rparr>\<rparr>,
      voxelSize = 5 / 10 ^ 13, dimensions = [1, 1, 1], totalVoxels = 1,
      occupiedVoxels = [], emptyVoxels = [tiny_voxel], voxelGrid = [None]\<rparr>"

text \<open>A hash of doubles that tells 0 from the other values.\<close>

definition example_hash :: "real \<Rightarrow> 64 word" where
  "example_hash v = (if v = 0 then 0 else 1)"

text \<open>
  Two point atoms 4000000000 apart and the grids the constructor builds from them with
  padding 0 and the voxel sizes 2000000000 and 1.
\<close>

definition far_atoms :: "Atom list" where
  "far_atoms =
     [\<lparr>getX = 0, getY = 0, getZ = 0, getAtomicRadius = 0, getId = 0\<rparr>,
      \<lparr>getX = 4000000000, getY = 0, getZ = 0, getAtomicRadius = 0, getId = 1\<rparr>]"

definition coarse_grid :: VoxelGrid where
  "coarse_grid =
     \<lparr>boundingBox = \<lparr>getMin = \<lparr>px = 0, py = 0, pz = 0\<rparr>,
                     getMax = \<lparr>px = 4000000000, py = 0, pz = 0\<rparr>\<rparr>,
      voxelSize = 2000000000, dimensions = [2, 1, 1], totalVoxels = 2,
      occupiedVoxels = [],
      emptyVoxels =
        [\<lparr>index = (0, 0, 0),
          center = \<lparr>px = 1000000000, py = 1000000000, pz = 1000000000\<rparr>,
          vmin = \<lparr>px = 0, py = 0, pz = 0\<rparr>,
          vmax = \<lparr>px = 2000000000, py = 2000000000, pz = 2000000000\<rparr>,
          occupied = False, atomIds = []\<rparr>,
         \<lparr>index = (1, 0, 0),
          center = \<lparr>px = 3000000000, py = 1000000000, pz = 1000000000\<rparr>,
          vmin = \<lparr>px = 2000000000, py = 0, pz = 0\<rparr>,
          vmax = \<lparr>px = 4000000000, py = 2000000000, pz = 2000000000\<rparr>,
          occupied = False, atomIds = []\<rparr>],
      voxelGrid = [None, None]\<rparr>"

definition fine_grid :: VoxelGrid where
  "fine_grid =
     \<lparr>boundingBox = \<lparr>getMin = \<lparr>px = 0, py = 0, pz = 0\<rparr>,
                     getMax = \<lparr>px = 4000000000, py = 0, pz = 0\<rparr>\<rparr>,
      voxelSize = 1, dimensions = [1, 1, 1], totalVoxels = 1,
      occupiedVoxels = [],
      emptyVoxels =
        [\<lparr>index = (0, 0, 0),
          center = \<lparr>px = 1 / 2, py = 1 / 2, pz = 1 / 2\<rparr>,
          vmin = \<lparr>px = 0, py = 0, pz = 0\<rparr>,
          vmax = \<lparr>px = 1, py = 1, pz = 1\<rparr>,
          occupied = False, atomIds = []\<rparr>],
      voxelGrid = [None]\<rparr>"

text \<open>
  The grid the C++ builds, in IEEE double arithmetic with every operation rounded, from the
  three atoms at (0, 0, 0), (0.1, 0, 0) and (0.4, 0, 0) with radius 0.05 and ids 0, 1, 2,
  voxel size 0.1 and padding 0: five cells along x, of which cells 2 and 3 are empty. Each
  coordinate is the exact value of the double the code computes; the far corner of cell 2
  is (-0.05 + 2 * 0.1) + 0.1 = 0.25 and the near corner of cell 3 is
  -0.05 + 3 * 0.1 = 0.25000000000000006.
\<close>

definition rounded_cell0 :: Voxel where
  "rounded_cell0 =
     \<lparr>index = (0, 0, 0),
      center = \<lparr>px = 0, py = 0, pz = 0\<rparr>,
      vmin = \<lparr>px = - (3602879701896397 / 2 ^ 56), py = - (3602879701896397 / 2 ^ 56), pz = - (3602879701896397 / 2 ^ 56)\<rparr>,
      vmax = \<lparr>px = 3602879701896397 / 2 ^ 56, py = 3602879701896397 / 2 ^ 56, pz = 3602879701896397 / 2 ^ 56\<rparr>,
      occupied = True, atomIds = [0]\<rparr>"

definition rounded_cell1 :: Voxel where
  "rounded_cell1 =
     \<lparr>index = (1, 0, 0),
      center = \<lparr>px = 3602879701896397 / 2 ^ 55, py = 0, pz = 0\<rparr>,
      vmin = \<lparr>px = 3602879701896397 / 2 ^ 56, py = - (3602879701896397 / 2 ^ 56), pz = - (3602879701896397 / 2 ^ 56)\<rparr>,
      vmax = \<lparr>px = 1351079888211149 / 2 ^ 53, py = 3602879701896397 / 2 ^ 56, pz = 3602879701896397 / 2 ^ 56\<rparr>,
      occupied = True, atomIds = [1]\<rparr>"

definition rounded_cell2 :: Voxel where
  "rounded_cell2 =
     \<lparr>index = (2, 0, 0),
      center = \<lparr>px = 3602879701896397 / 2 ^ 54, py = 0, pz = 0\<rparr>,
      vmin = \<lparr>px = 1351079888211149 / 2 ^ 53, py = - (3602879701896397 / 2 ^ 56), pz = - (3602879701896397 / 2 ^ 56)\<rparr>,
      vmax = \<lparr>px = 1 / 2 ^ 2, py = 3602879701896397 / 2 ^ 56, pz = 3602879701896397 / 2 ^ 56\<rparr>,
      occupied = False, atomIds = []\<rparr>"

definition rounded_cell3 :: Voxel where
  "rounded_cell3 =
     \<lparr>index = (3, 0, 0),
      center = \<lparr>px = 1351079888211149 / 2 ^ 52, py = 0, pz = 0\<rparr>,
      vmin = \<lparr>px = 4503599627370497 / 2 ^ 54, py = - (3602879701896397 / 2 ^ 56), pz = - (3602879701896397 / 2 ^ 56)\<rparr>,
      vmax = \<lparr>px = 788129934789837 / 2 ^ 51, py = 3602879701896397 / 2 ^ 56, pz = 3602879701896397 / 2 ^ 56\<rparr>,
      occupied = False, atomIds = []\<rparr>"

definition rounded_cell4 :: Voxel where
  "rounded_cell4 =
     \<lparr>index = (4, 0, 0),
      center = \<lparr>px = 3602879701896397 / 2 ^ 53, py = 0, pz = 0\<rparr>,
      vmin = \<lparr>px = 6305039478318695 / 2 ^ 54, py = - (3602879701896397 / 2 ^ 56), pz = - (3602879701896397 / 2 ^ 56)\<rparr>,
      vmax = \<lparr>px = 4053239664633447 / 2 ^ 53, py = 3602879701896397 / 2 ^ 56, pz = 3602879701896397 / 2 ^ 56\<rparr>,
      occupied = True, atomIds = [2]\<rparr>"

definition rounded_grid :: VoxelGrid where
  "rounded_grid =
     \<lparr>boundingBox = \<lparr>getMin = \<lparr>px = - (3602879701896397 / 2 ^ 56), py = - (3602879701896397 / 2 ^ 56), pz = - (3602879701896397 / 2 ^ 56)\<rparr>,
                     getMax = \<lparr>px = 8106479329266893 / 2 ^ 54, py = 3602879701896397 / 2 ^ 56, pz = 3602879701896397 / 2 ^ 56\<rparr>\<rparr>,
      voxelSize = 3602879701896397 / 2 ^ 55, dimensions = [5, 1, 1], totalVoxels = 5,
      occupiedVoxels = [rounded_cell0, rounded_cell1, rounded_cell4],
      emptyVoxels = [rounded_cell2, rounded_cell3],
      voxelGrid = [Some 0, Some 1, None, None, Some 2]\<rparr>"

text \<open>A hash of doubles that tells the values up to 1/4 from the larger ones.\<close>

definition split_hash :: "real \<Rightarrow> 64 word" where
  "split_hash v = (if v \<le> 1 / 4 then 0 else 1)"

section \<open>The voxel grid: auxiliary facts\<close>

lemma isVoxelOccupied_loop_eq:
  "isVoxelOccupied_loop c atoms ids = ids @ map getId (filter (sphere_contains c) atoms)"
  by (induction atoms arbitrary: ids) (simp_all add: sphere_contains_def Let_def)

lemma isVoxelOccupied_eq:
  "isVoxelOccupied c atoms =
     (\<exists>a \<in> set atoms. sphere_contains c a, map getId (filter (sphere_contains c) atoms))"
  by (auto simp: isVoxelOccupied_def isVoxelOccupied_loop_eq Let_def filter_empty_conv)

lemma fold_concat_lists: "fold f (concat xss) = fold (fold f) xss"
proof
  fix s
  show "fold f (concat xss) s = fold (fold f) xss s"
    by (induction xss arbitrary: s) simp_all
qed

lemma fold_cells:
  "fold (\<lambda>k. fold (\<lambda>j. fold (\<lambda>i. initialize_cell atoms k j i) [0..d0 - 1]) [0..d1 - 1]) [0..d2 - 1] g
   = fold (cell_step atoms) (cells d0 d1 d2) g"
  by (simp add: cells_def fold_concat_lists fold_map comp_def cell_step_def)

lemma cell_step_unfold:
  "cell_step atoms c g =
     (if occupied (cell_voxel g atoms c)
      then g\<lparr>occupiedVoxels := occupiedVoxels g @ [cell_voxel g atoms c],
             voxelGrid := (voxelGrid g)[cell_slot g c := Some (length (occupiedVoxels g))]\<rparr>
      else g\<lparr>emptyVoxels := emptyVoxels g @ [cell_voxel g atoms c]\<rparr>)"
  by (cases c) (simp add: cell_step_def initialize_cell_def cell_voxel_def cell_slot_def Let_def)

lemma cell_step_frame:
  "boundingBox (cell_step atoms c g) = boundingBox g"
  "voxelSize (cell_step atoms c g) = voxelSize g"
  "dimensions (cell_step atoms c g) = dimensions g"
  "totalVoxels (cell_step atoms c g) = totalVoxels g"
  "length (voxelGrid (cell_step atoms c g)) = length (voxelGrid g)"
  by (simp_all add: cell_step_unfold)

lemma cell_step_voxel: "cell_voxel (cell_step atoms c g) atoms c' = cell_voxel g atoms c'"
  by (simp add: cell_voxel_def cell_step_frame split: prod.splits)

lemma cell_step_slot: "cell_slot (cell_step atoms c g) c' = cell_slot g c'"
  by (simp add: cell_slot_def getLinearIndex_def cell_step_frame split: prod.splits)

lemma fold_frame:
  "boundingBox (fold (cell_step atoms) cs g) = boundingBox g"
  "voxelSize (fold (cell_step atoms) cs g) = voxelSize g"
  "dimensions (fold (cell_step atoms) cs g) = dimensions g"
  "totalVoxels (fold (cell_step atoms) cs g) = totalVoxels g"
  "length (voxelGrid (fold (cell_step atoms) cs g)) = length (voxelGrid g)"
  by (induction cs arbitrary: g) (simp_all add: cell_step_frame)

lemma fold_occupied:
  "occupiedVoxels (fold (cell_step atoms) cs g)
     = occupiedVoxels g @ filter occupied (map (cell_voxel g atoms) cs)"
proof (induction cs arbitrary: g)
  case Nil
  show ?case by simp
next
  case (Cons c cs)
  have m: "map (cell_voxel (cell_step atoms c g) atoms) cs = map (cell_voxel g atoms) cs"
    by (simp add: cell_step_voxel)
  have s: "occupiedVoxels (cell_step atoms c g)
             = occupiedVoxels g @ filter occupied [cell_voxel g atoms c]"
    by (simp add: cell_step_unfold)
  show ?case
    using Cons.IH [of "cell_step atoms c g"] by (simp only: fold_Cons comp_apply m s list.map filter_append [symmetric] append_assoc append.simps)
qed

lemma fold_empty:
  "emptyVoxels (fold (cell_step atoms) cs g)
     = emptyVoxels g @ filter (\<lambda>v. \<not> occupied v) (map (cell_voxel g atoms) cs)"
proof (induction cs arbitrary: g)
  case Nil
  show ?case by simp
next
  case (Cons c cs)
  have m: "map (cell_voxel (cell_step atoms c g) atoms) cs = map (cell_voxel g atoms) cs"
    by (simp add: cell_step_voxel)
  have s: "emptyVoxels (cell_step atoms c g)
             = emptyVoxels g @ filter (\<lambda>v. \<not> occupied v) [cell_voxel g atoms c]"
    by (simp add: cell_step_unfold)
  show ?case
    using Cons.IH [of "cell_step atoms c g"] by (simp only: fold_Cons comp_apply m s list.map filter_append [symmetric] append_assoc append.simps)
qed

lemma fold_table:
  "n < length (voxelGrid g) \<Longrightarrow>
   (voxelGrid (fold (cell_step atoms) cs g) ! n \<noteq> None) =
     (voxelGrid g ! n \<noteq> None \<or> (\<exists>c \<in> set cs. occupied (cell_voxel g atoms c) \<and> cell_slot g c = n))"
proof (induction cs arbitrary: g)
  case Nil
  show ?case by simp
next
  case (Cons c cs)
  have n: "n < length (voxelGrid (cell_step atoms c g))"
    using Cons.prems by (simp add: cell_step_frame)
  have s: "(voxelGrid (cell_step atoms c g) ! n \<noteq> None)
             = (voxelGrid g ! n \<noteq> None \<or> (occupied (cell_voxel g atoms c) \<and> cell_slot g c = n))"
    using Cons.prems by (cases "cell_slot g c = n") (auto simp: cell_step_unfold)
  have r: "(voxelGrid (fold (cell_step atoms) (c # cs) g) ! n \<noteq> None) =
     (voxelGrid (cell_step atoms c g) ! n \<noteq> None \<or>
       (\<exists>c' \<in> set cs. occupied (cell_voxel g atoms c') \<and> cell_slot g c' = n))"
    using Cons.IH [OF n] by (simp only: fold_Cons comp_apply cell_step_voxel cell_step_slot)
  show ?case
    unfolding r s by (simp only: set_simps bex_simps) blast
qed

lemma set_cells:
  "set (cells d0 d1 d2) = {(i, j, k). 0 \<le> i \<and> i < d0 \<and> 0 \<le> j \<and> j < d1 \<and> 0 \<le> k \<and> k < d2}"
  by (force simp: cells_def)

lemma length_cells:
  "0 \<le> d0 \<Longrightarrow> 0 \<le> d1 \<Longrightarrow> 0 \<le> d2 \<Longrightarrow> int (length (cells d0 d1 d2)) = d0 * d1 * d2"
  by (simp add: cells_def length_concat comp_def sum_list_triv nat_mult_distrib)

lemma pair_unique:
  fixes i j i' j' d :: int
  assumes "0 \<le> i" "i < d" "0 \<le> i'" "i' < d" "i + j * d = i' + j' * d"
  shows "i = i' \<and> j = j'"
proof -
  have "(i + j * d) mod d = i" "(i' + j' * d) mod d = i'"
    using assms(1-4) by simp_all
  then have i: "i = i'" using assms(5) by metis
  have "d \<noteq> 0" using assms by auto
  then have "j = j'" using assms(5) i by simp
  with i show ?thesis by simp
qed

lemma linear_unique:
  fixes i j k i' j' k' d0 d1 :: int
  assumes "0 \<le> i" "i < d0" "0 \<le> i'" "i' < d0" "0 \<le> j" "j < d1" "0 \<le> j'" "j' < d1"
    and "i + j * d0 + k * d0 * d1 = i' + j' * d0 + k' * d0 * d1"
  shows "i = i' \<and> j = j' \<and> k = k'"
proof -
  have "i + (j + k * d1) * d0 = i' + (j' + k' * d1) * d0"
    using assms(9) by (simp add: algebra_simps)
  from pair_unique [OF assms(1-4) this] have i: "i = i'" and r: "j + k * d1 = j' + k' * d1"
    by simp_all
  from pair_unique [OF assms(5-8) r] i show ?thesis by simp
qed

lemma linear_bounds:
  fixes i j k d0 d1 d2 :: int
  assumes "0 \<le> i" "i < d0" "0 \<le> j" "j < d1" "0 \<le> k" "k < d2"
  shows "0 \<le> i + j * d0 + k * d0 * d1" "i + j * d0 + k * d0 * d1 < d0 * d1 * d2"
proof -
  show "0 \<le> i + j * d0 + k * d0 * d1" using assms by simp
  have a: "j * d0 \<le> (d1 - 1) * d0" using assms by (intro mult_right_mono) simp_all
  have b: "k * (d0 * d1) \<le> (d2 - 1) * (d0 * d1)" using assms by (intro mult_right_mono) simp_all
  have "i + j * d0 + k * d0 * d1 \<le> (d0 - 1) + (d1 - 1) * d0 + (d2 - 1) * (d0 * d1)"
    unfolding mult.assoc using a b assms(2) by linarith
  also have "\<dots> = d0 * d1 * d2 - 1" by (simp add: algebra_simps)
  finally show "i + j * d0 + k * d0 * d1 < d0 * d1 * d2" by simp
qed

lemma cells_product:
  "cells d0 d1 d2 =
     map (\<lambda>(k, j, i). (i, j, k)) (List.product [0..d2 - 1] (List.product [0..d1 - 1] [0..d0 - 1]))"
  by (simp add: cells_def product_concat_map map_concat comp_def)

lemma distinct_cells: "distinct (cells d0 d1 d2)"
  unfolding cells_product
  by (simp add: distinct_map distinct_product inj_on_def split: prod.splits)

lemma grid_dim_pos: "1 \<le> grid_dim e vs"
  by (simp add: grid_dim_def)

lemma initialize_eq:
  "initialize atoms (fresh_grid bb vs) =
     (if total_fits bb vs then Inr (built_grid atoms bb vs) else Inl IntOverflow)"
  by (simp add: initialize_def Let_def fold_cells dims_of_def grid_dim_def fresh_grid_def
      start_grid_def grid_cells_def built_grid_def total_fits_def not_less)

lemma start_grid_simps:
  "boundingBox (start_grid bb vs) = bb"
  "voxelSize (start_grid bb vs) = vs"
  "dimensions (start_grid bb vs) =
     [fst (dims_of bb vs), fst (snd (dims_of bb vs)), snd (snd (dims_of bb vs))]"
  "totalVoxels (start_grid bb vs) =
     fst (dims_of bb vs) * fst (snd (dims_of bb vs)) * snd (snd (dims_of bb vs))"
  "occupiedVoxels (start_grid bb vs) = []"
  "emptyVoxels (start_grid bb vs) = []"
  "voxelGrid (start_grid bb vs) =
     replicate (nat (fst (dims_of bb vs) * fst (snd (dims_of bb vs)) * snd (snd (dims_of bb vs)))) None"
  by (simp_all add: start_grid_def fresh_grid_def split: prod.splits)

lemma initialize_frame:
  "boundingBox (built_grid atoms bb vs) = bb"
  "voxelSize (built_grid atoms bb vs) = vs"
  "dimensions (built_grid atoms bb vs) =
     [fst (dims_of bb vs), fst (snd (dims_of bb vs)), snd (snd (dims_of bb vs))]"
  "totalVoxels (built_grid atoms bb vs) =
     fst (dims_of bb vs) * fst (snd (dims_of bb vs)) * snd (snd (dims_of bb vs))"
  by (simp_all add: built_grid_def fold_frame start_grid_simps)

lemma cell_voxel_start:
  "cell_voxel (start_grid bb vs) atoms (i, j, k) = make_voxel bb vs atoms i j k"
  by (simp add: cell_voxel_def start_grid_simps)

lemma initialize_occupied:
  "occupiedVoxels (built_grid atoms bb vs) =
     filter occupied (map (cell_voxel (start_grid bb vs) atoms) (grid_cells bb vs))"
  by (simp add: built_grid_def fold_occupied start_grid_simps)

lemma initialize_empty:
  "emptyVoxels (built_grid atoms bb vs) =
     filter (\<lambda>v. \<not> occupied v) (map (cell_voxel (start_grid bb vs) atoms) (grid_cells bb vs))"
  by (simp add: built_grid_def fold_empty start_grid_simps)

lemma set_grid_cells:
  "in_grid (built_grid atoms bb vs) i j k = ((i, j, k) \<in> set (grid_cells bb vs))"
  by (cases "dims_of bb vs") (simp add: grid_cells_def set_cells in_grid_def initialize_frame)

lemma length_grid_cells:
  "int (length (grid_cells bb vs)) =
     fst (dims_of bb vs) * fst (snd (dims_of bb vs)) * snd (snd (dims_of bb vs))"
proof -
  obtain d0 d1 d2 where d: "dims_of bb vs = (d0, d1, d2)" by (cases "dims_of bb vs") auto
  then have "1 \<le> d0" "1 \<le> d1" "1 \<le> d2"
    by (auto simp: dims_of_def grid_dim_pos)
  then show ?thesis
    using d by (simp add: grid_cells_def length_cells)
qed

lemma dims_product_pos:
  "1 \<le> fst (dims_of bb vs) * fst (snd (dims_of bb vs)) * snd (snd (dims_of bb vs))"
proof -
  have d: "1 \<le> grid_dim (px (getDimensions bb)) vs" "1 \<le> grid_dim (py (getDimensions bb)) vs"
    "1 \<le> grid_dim (pz (getDimensions bb)) vs"
    by (rule grid_dim_pos)+
  have "1 \<le> grid_dim (px (getDimensions bb)) vs * grid_dim (py (getDimensions bb)) vs"
    using mult_mono [OF d(1) d(2)] d by simp
  from mult_mono [OF this d(3)] d show ?thesis
    by (simp add: dims_of_def)
qed

lemma index_cell_voxel: "index (cell_voxel g atoms c) = c"
  by (cases c) (simp add: cell_voxel_def make_voxel_def Let_def)

lemma map_index_filter:
  "map index (filter P (map (cell_voxel g atoms) cs)) = filter (\<lambda>c. P (cell_voxel g atoms c)) cs"
  by (induction cs) (simp_all add: index_cell_voxel)

lemma initialize_table:
  assumes "in_grid (built_grid atoms bb vs) i j k"
  shows "nat (getLinearIndex (built_grid atoms bb vs) i j k)
           < length (voxelGrid (built_grid atoms bb vs))"
    and "(voxelGrid (built_grid atoms bb vs)
            ! nat (getLinearIndex (built_grid atoms bb vs) i j k) \<noteq> None)
         = occupied (make_voxel bb vs atoms i j k)"
proof -
  let ?g = "built_grid atoms bb vs"
  let ?s = "start_grid bb vs"
  obtain d0 d1 d2 where d: "dims_of bb vs = (d0, d1, d2)" by (cases "dims_of bb vs") auto
  have dims: "dimensions ?g = [d0, d1, d2]" "dimensions ?s = [d0, d1, d2]"
    by (simp_all add: initialize_frame start_grid_simps d)
  have r: "0 \<le> i" "i < d0" "0 \<le> j" "j < d1" "0 \<le> k" "k < d2"
    using assms by (simp_all add: in_grid_def dims)
  have lin: "getLinearIndex ?g i j k = i + j * d0 + k * d0 * d1"
    by (simp add: getLinearIndex_def dims)
  have len: "length (voxelGrid ?g) = nat (d0 * d1 * d2)"
    by (simp add: built_grid_def fold_frame start_grid_simps d)
  show n: "nat (getLinearIndex ?g i j k) < length (voxelGrid ?g)"
    using linear_bounds [OF r] by (simp add: lin len)
  have n': "nat (getLinearIndex ?g i j k) < length (voxelGrid ?s)"
    using n by (simp add: built_grid_def fold_frame)
  have slot: "cell_slot ?s (i', j', k') = nat (i' + j' * d0 + k' * d0 * d1)" for i' j' k'
    by (simp add: cell_slot_def getLinearIndex_def dims)
  have z: "voxelGrid ?s ! nat (getLinearIndex ?g i j k) = None"
    using n' by (simp add: start_grid_simps)
  have t: "voxelGrid ?g = voxelGrid (fold (cell_step atoms) (grid_cells bb vs) ?s)"
    by (simp only: built_grid_def)
  have "(voxelGrid ?g ! nat (getLinearIndex ?g i j k) \<noteq> None) =
        (\<exists>c \<in> set (grid_cells bb vs). occupied (cell_voxel ?s atoms c) \<and>
            cell_slot ?s c = nat (getLinearIndex ?g i j k))"
    unfolding t using fold_table [OF n', of atoms "grid_cells bb vs"] z
    by (simp only: not_None_eq option.simps simp_thms)
  also have "\<dots> = occupied (make_voxel bb vs atoms i j k)"
  proof
    assume "\<exists>c \<in> set (grid_cells bb vs). occupied (cell_voxel ?s atoms c) \<and>
            cell_slot ?s c = nat (getLinearIndex ?g i j k)"
    then obtain i' j' k' where c: "(i', j', k') \<in> set (grid_cells bb vs)"
      and o: "occupied (cell_voxel ?s atoms (i', j', k'))"
      and e: "cell_slot ?s (i', j', k') = nat (getLinearIndex ?g i j k)"
      by auto
    have r': "0 \<le> i'" "i' < d0" "0 \<le> j'" "j' < d1" "0 \<le> k'" "k' < d2"
      using c by (simp_all add: grid_cells_def d set_cells)
    have "i' + j' * d0 + k' * d0 * d1 = i + j * d0 + k * d0 * d1"
      using e linear_bounds(1) [OF r] linear_bounds(1) [OF r'] by (simp add: slot lin)
    from linear_unique [OF r'(1,2) r(1,2) r'(3,4) r(3,4) this]
    show "occupied (make_voxel bb vs atoms i j k)"
      using o by (simp add: cell_voxel_start)
  next
    assume o: "occupied (make_voxel bb vs atoms i j k)"
    have "(i, j, k) \<in> set (grid_cells bb vs)"
      using r by (simp add: grid_cells_def d set_cells)
    moreover have "cell_slot ?s (i, j, k) = nat (getLinearIndex ?g i j k)"
      by (simp add: slot lin)
    ultimately show "\<exists>c \<in> set (grid_cells bb vs). occupied (cell_voxel ?s atoms c) \<and>
            cell_slot ?s c = nat (getLinearIndex ?g i j k)"
      using o by (intro bexI [of _ "(i, j, k)"]) (simp_all add: cell_voxel_start)
  qed
  finally show "(voxelGrid ?g ! nat (getLinearIndex ?g i j k) \<noteq> None)
         = occupied (make_voxel bb vs atoms i j k)" .
qed

lemma make_voxel_simps:
  "index (make_voxel bb vs atoms i j k) = (i, j, k)"
  "occupied (make_voxel bb vs atoms i j k)
     = (\<exists>a \<in> set atoms. sphere_contains (center (make_voxel bb vs atoms i j k)) a)"
  "atomIds (make_voxel bb vs atoms i j k)
     = map getId (filter (sphere_contains (center (make_voxel bb vs atoms i j k))) atoms)"
  by (simp_all add: make_voxel_def Let_def isVoxelOccupied_eq)

lemma ctor_cases:
  assumes "VoxelGrid_from_box bb atoms vs = Inr g \<or> VoxelGrid_from_atoms atoms vs padding = Inr g"
  obtains b where "g = built_grid atoms b vs" "0 < vs" "total_fits b vs"
  using assms
  by (auto simp: VoxelGrid_from_box_def VoxelGrid_from_atoms_def initialize_eq
      split: if_splits sum.splits)

lemma initialize_voxels:
  assumes "v \<in> set (occupiedVoxels (built_grid atoms b vs))
             \<union> set (emptyVoxels (built_grid atoms b vs))"
  obtains i j k where "v = make_voxel b vs atoms i j k"
    "in_grid (built_grid atoms b vs) i j k"
proof -
  from assms obtain c where c: "c \<in> set (grid_cells b vs)" "v = cell_voxel (start_grid b vs) atoms c"
    by (auto simp: initialize_occupied initialize_empty)
  obtain i j k where "c = (i, j, k)" by (cases c) auto
  with c that show ?thesis
    by (simp add: cell_voxel_start set_grid_cells)
qed

lemma grid_dim_antitone:
  assumes "0 < s'" "s' \<le> s" "INT_MIN \<le> \<lceil>e / s'\<rceil>" "\<lceil>e / s'\<rceil> \<le> INT_MAX"
  shows "grid_dim e s \<le> grid_dim e s'"
proof (cases "static_cast_int \<lceil>e / s\<rceil> \<le> 1")
  case True
  then have "grid_dim e s = 1" by (simp add: grid_dim_def)
  then show ?thesis by (simp add: grid_dim_pos)
next
  case False
  then have c: "static_cast_int \<lceil>e / s\<rceil> = \<lceil>e / s\<rceil>" "1 < \<lceil>e / s\<rceil>"
    by (auto simp: static_cast_int_def INT_MIN_def split: if_splits)
  have "0 < e / s" using c(2) by (simp add: less_ceiling_iff)
  then have "0 \<le> e" using assms(1,2) by (simp add: zero_less_divide_iff)
  then have "e / s \<le> e / s'"
    using assms(1,2) by (intro divide_left_mono) (simp_all add: mult_pos_pos)
  then have "\<lceil>e / s\<rceil> \<le> \<lceil>e / s'\<rceil>" by (rule ceiling_mono)
  moreover have "static_cast_int \<lceil>e / s'\<rceil> = \<lceil>e / s'\<rceil>"
    using assms(3,4) by (simp add: static_cast_int_def)
  ultimately show ?thesis
    using c(1) by (simp add: grid_dim_def)
qed

lemma total_antitone:
  assumes "0 < s'" "s' \<le> s" "dims_fit b s'"
  shows "totalVoxels (built_grid atoms b s) \<le> totalVoxels (built_grid atoms' b s')"
proof -
  let ?d = "\<lambda>e v. grid_dim e v"
  let ?x = "px (getDimensions b)" and ?y = "py (getDimensions b)" and ?z = "pz (getDimensions b)"
  have p: "0 \<le> ?d ?x s" "0 \<le> ?d ?y s" "0 \<le> ?d ?z s" "0 \<le> ?d ?x s'" "0 \<le> ?d ?y s'"
    using grid_dim_pos [of ?x s] grid_dim_pos [of ?y s] grid_dim_pos [of ?z s]
      grid_dim_pos [of ?x s'] grid_dim_pos [of ?y s'] by simp_all
  have m: "?d ?x s \<le> ?d ?x s'" "?d ?y s \<le> ?d ?y s'" "?d ?z s \<le> ?d ?z s'"
    using assms by (simp_all add: dims_fit_def grid_dim_antitone)
  have "?d ?x s * ?d ?y s \<le> ?d ?x s' * ?d ?y s'"
    using m p by (intro mult_mono) simp_all
  then have "?d ?x s * ?d ?y s * ?d ?z s \<le> ?d ?x s' * ?d ?y s' * ?d ?z s'"
    using m p by (intro mult_mono) simp_all
  then show ?thesis
    by (simp add: initialize_frame dims_of_def)
qed

lemma calculateBounds_loop_bounds:
  assumes "calculateBounds_loop atoms (a1, a2, a3, a4, a5, a6) = (b1, b2, b3, b4, b5, b6)"
  shows "b1 \<le> a1 \<and> b2 \<le> a2 \<and> b3 \<le> a3 \<and> a4 \<le> b4 \<and> a5 \<le> b5 \<and> a6 \<le> b6 \<and>
         (\<forall>a \<in> set atoms.
            b1 \<le> getX a - getAtomicRadius a \<and> getX a + getAtomicRadius a \<le> b4 \<and>
            b2 \<le> getY a - getAtomicRadius a \<and> getY a + getAtomicRadius a \<le> b5 \<and>
            b3 \<le> getZ a - getAtomicRadius a \<and> getZ a + getAtomicRadius a \<le> b6)"
  using assms
proof (induction atoms arbitrary: a1 a2 a3 a4 a5 a6)
  case Nil
  then show ?case by simp
next
  case (Cons a atoms)
  from Cons.prems have
    "calculateBounds_loop atoms
       (min a1 (getX a - getAtomicRadius a), min a2 (getY a - getAtomicRadius a),
        min a3 (getZ a - getAtomicRadius a), max a4 (getX a + getAtomicRadius a),
        max a5 (getY a + getAtomicRadius a), max a6 (getZ a + getAtomicRadius a))
     = (b1, b2, b3, b4, b5, b6)"
    by (simp add: Let_def)
  from Cons.IH [OF this] show ?case by auto
qed

section \<open>The mesh: auxiliary facts\<close>

lemma assign_corners_shape:
  assumes "assign_corners h cs (m, ns, n) conn = ((m', ns', n'), conn')"
  shows "(\<exists>ys. ns' = ns @ ys) \<and> length conn' = length conn + length cs \<and>
         (map fst m = ns \<longrightarrow> map fst m' = ns')"
  using assms
proof (induction cs arbitrary: m ns n conn)
  case Nil
  then show ?case by simp
next
  case (Cons c cs)
  show ?case
  proof (cases "map_find h m c")
    case None
    with Cons.prems have
      "assign_corners h cs (m @ [(c, n)], ns @ [c], n + 1) (conn @ [n]) = ((m', ns', n'), conn')"
      by simp
    from Cons.IH [OF this] show ?thesis by auto
  next
    case (Some idx)
    with Cons.prems have "assign_corners h cs (m, ns, n) (conn @ [idx]) = ((m', ns', n'), conn')"
      by simp
    from Cons.IH [OF this] show ?thesis by auto
  qed
qed

lemma xor_right_cancel_word: "(a XOR c = b XOR c) = (a = (b :: 64 word))"
proof
  assume "a XOR c = b XOR c"
  then have "(a XOR c) XOR c = (b XOR c) XOR c" by simp
  then show "a = b" by (simp add: xor.assoc)
qed simp

lemma Point3DHash_first_axis:
  "(Point3DHash h \<lparr>px = x, py = y, pz = z\<rparr> = Point3DHash h \<lparr>px = x', py = y, pz = z\<rparr>)
     = (h x = h x')"
  by (simp add: Point3DHash_def Let_def xor.assoc xor_right_cancel_word)

lemma tiny_grid_built: "VoxelGrid_from_atoms [point_atom] (5 / 10 ^ 13) 0 = Inr tiny_grid"
  by (simp add: VoxelGrid_from_atoms_def BoundingBox_ctor_def calculateBounds_def DBL_MAX_def
      point_atom_def Let_def initialize_def fresh_grid_def getDimensions_def
      static_cast_int_def INT_MAX_def INT_MIN_def
      initialize_cell_def make_voxel_def isVoxelOccupied_def getLinearIndex_def
      tiny_grid_def tiny_voxel_def)

lemma tiny_mesh_nodes:
  assumes "h 0 \<noteq> h (5 / 10 ^ 13)"
  shows "\<exists>ys. nodes (generateHexMesh h tiny_grid)
           = [\<lparr>px = 0, py = 0, pz = 0\<rparr>, \<lparr>px = 5 / 10 ^ 13, py = 0, pz = 0\<rparr>] @ ys"
proof -
  let ?c0 = "\<lparr>px = 0, py = 0, pz = 0\<rparr>" and ?c1 = "\<lparr>px = 5 / 10 ^ 13, py = 0, pz = 0\<rparr>"
  obtain rest where cs: "computeCornerNodes tiny_voxel = ?c0 # ?c1 # rest"
    by (simp add: computeCornerNodes_def tiny_voxel_def)
  have hne: "Point3DHash h ?c0 \<noteq> Point3DHash h ?c1"
    using assms by (simp only: Point3DHash_first_axis not_False_eq_True)
  obtain m' ns' n' conn' where
    r: "assign_corners h rest ([(?c0, 0), (?c1, 1)], [?c0, ?c1], 2) [0, 1] = ((m', ns', n'), conn')"
    by (metis prod_cases3 surj_pair)
  have a: "assign_corners h (computeCornerNodes tiny_voxel) ([], [], 0) [] = ((m', ns', n'), conn')"
    using hne r by (simp add: cs)
  from assign_corners_shape [OF r] obtain ys where ys: "ns' = [?c0, ?c1] @ ys" by blast
  have "nodes (generateHexMesh h tiny_grid) = ns'"
    using a by (simp add: generateHexMesh_def assignUniqueNodeIndices_def tiny_grid_def)
  with ys show ?thesis by blast
qed

lemma example_grid_built: "VoxelGrid_from_box example_box [example_atom] 1 = Inr example_grid"
  by (simp add: VoxelGrid_from_box_def initialize_def fresh_grid_def example_box_def
      static_cast_int_def INT_MAX_def INT_MIN_def
      example_atom_def getDimensions_def Let_def upto_rec1 initialize_cell_def make_voxel_def
      isVoxelOccupied_def getLinearIndex_def example_grid_def left_voxel_def right_voxel_def
      numeral_2_eq_2)

lemma two_voxel_grid_built: "VoxelGrid_from_box example_box [] 1 = Inr two_voxel_grid"
  by (simp add: VoxelGrid_from_box_def initialize_def fresh_grid_def example_box_def
      static_cast_int_def INT_MAX_def INT_MIN_def
      getDimensions_def Let_def upto_rec1 initialize_cell_def make_voxel_def
      isVoxelOccupied_def getLinearIndex_def two_voxel_grid_def left_voxel_def right_voxel_def
      numeral_2_eq_2)

lemma static_cast_int_exact: "INT_MIN \<le> c \<Longrightarrow> c \<le> INT_MAX \<Longrightarrow> static_cast_int c = c"
  by (simp add: static_cast_int_def)

lemma static_cast_int_above: "INT_MAX < c \<Longrightarrow> static_cast_int c = INT_MIN"
  by (simp add: static_cast_int_def)

lemma far_atoms_box:
  "calculateBounds far_atoms 0 =
     \<lparr>getMin = \<lparr>px = 0, py = 0, pz = 0\<rparr>, getMax = \<lparr>px = 4000000000, py = 0, pz = 0\<rparr>\<rparr>"
  by (simp add: calculateBounds_def far_atoms_def DBL_MAX_def Let_def)

lemma far_atoms_occupancy:
  "isVoxelOccupied \<lparr>px = 1000000000, py = 1000000000, pz = 1000000000\<rparr> far_atoms = (False, [])"
  "isVoxelOccupied \<lparr>px = 3000000000, py = 1000000000, pz = 1000000000\<rparr> far_atoms = (False, [])"
  "isVoxelOccupied \<lparr>px = 1 / 2, py = 1 / 2, pz = 1 / 2\<rparr> far_atoms = (False, [])"
  by (simp_all add: isVoxelOccupied_def far_atoms_def Let_def)

lemma far_atoms_voxels:
  "make_voxel (calculateBounds far_atoms 0) 2000000000 far_atoms 0 0 0 = emptyVoxels coarse_grid ! 0"
  "make_voxel (calculateBounds far_atoms 0) 2000000000 far_atoms 1 0 0 = emptyVoxels coarse_grid ! 1"
  "make_voxel (calculateBounds far_atoms 0) 1 far_atoms 0 0 0 = emptyVoxels fine_grid ! 0"
  by (simp_all add: make_voxel_def far_atoms_box Let_def far_atoms_occupancy coarse_grid_def
      fine_grid_def)

lemma coarse_grid_built: "VoxelGrid_from_atoms far_atoms 2000000000 0 = Inr coarse_grid"
proof -
  have "initialize far_atoms (fresh_grid (calculateBounds far_atoms 0) 2000000000) = Inr coarse_grid"
    by (simp add: initialize_def Let_def fresh_grid_def initialize_cell_def
        far_atoms_voxels [unfolded far_atoms_box] far_atoms_box getDimensions_def
        static_cast_int_exact INT_MAX_def INT_MIN_def upto_rec1 numeral_2_eq_2 coarse_grid_def)
  then show ?thesis
    by (simp add: VoxelGrid_from_atoms_def BoundingBox_ctor_def far_atoms_def)
qed

lemma fine_grid_built: "VoxelGrid_from_atoms far_atoms 1 0 = Inr fine_grid"
proof -
  have "initialize far_atoms (fresh_grid (calculateBounds far_atoms 0) 1) = Inr fine_grid"
    by (simp add: initialize_def Let_def fresh_grid_def initialize_cell_def
        far_atoms_voxels [unfolded far_atoms_box] far_atoms_box getDimensions_def
        static_cast_int_exact static_cast_int_above INT_MAX_def INT_MIN_def fine_grid_def)
  then show ?thesis
    by (simp add: VoxelGrid_from_atoms_def BoundingBox_ctor_def far_atoms_def)
qed

section \<open>Properties\<close>

text \<open>
  C3. For every voxel, the eight corner points of its hexahedral element are, in this
  index order: 0 (min.x, min.y, min.z), 1 (max.x, min.y, min.z), 2 (max.x, max.y, min.z),
  3 (min.x, max.y, min.z), 4 (min.x, min.y, max.z), 5 (max.x, min.y, max.z),
  6 (max.x, max.y, max.z), 7 (min.x, max.y, max.z).
\<close>

theorem C3_corner_order:
  "length (computeCornerNodes v) = 8 \<and>
   computeCornerNodes v ! 0 = \<lparr>px = px (vmin v), py = py (vmin v), pz = pz (vmin v)\<rparr> \<and>
   computeCornerNodes v ! 1 = \<lparr>px = px (vmax v), py = py (vmin v), pz = pz (vmin v)\<rparr> \<and>
   computeCornerNodes v ! 2 = \<lparr>px = px (vmax v), py = py (vmax v), pz = pz (vmin v)\<rparr> \<and>
   computeCornerNodes v ! 3 = \<lparr>px = px (vmin v), py = py (vmax v), pz = pz (vmin v)\<rparr> \<and>
   computeCornerNodes v ! 4 = \<lparr>px = px (vmin v), py = py (vmin v), pz = pz (vmax v)\<rparr> \<and>
   computeCornerNodes v ! 5 = \<lparr>px = px (vmax v), py = py (vmin v), pz = pz (vmax v)\<rparr> \<and>
   computeCornerNodes v ! 6 = \<lparr>px = px (vmax v), py = py (vmax v), pz = pz (vmax v)\<rparr> \<and>
   computeCornerNodes v ! 7 = \<lparr>px = px (vmin v), py = py (vmax v), pz = pz (vmax v)\<rparr>"
  by (simp add: computeCornerNodes_def)

text \<open>
  C2. For every atom list and every cell of a constructed grid: the cell is classified
  occupied iff the squared distance from its centre to some atom's position is at most
  that atom's radius squared; the voxel's \<^verbatim>\<open>atomIds\<close> lists the id of every atom whose sphere
  contains the centre (in atom order, not only the first match), so it is non-empty iff the
  voxel is occupied. The voxel sits in the occupied collection iff it is occupied, in the
  empty one iff it is not, and every cell of the grid has its voxel in one of the two.
\<close>

theorem C2_occupancy:
  assumes "VoxelGrid_from_box bb atoms vs = Inr g \<or> VoxelGrid_from_atoms atoms vs padding = Inr g"
  shows "(\<forall>v \<in> set (occupiedVoxels g) \<union> set (emptyVoxels g).
            occupied v = (\<exists>a \<in> set atoms. sphere_contains (center v) a) \<and>
            atomIds v = map getId (filter (sphere_contains (center v)) atoms) \<and>
            (atomIds v \<noteq> []) = occupied v \<and>
            (v \<in> set (occupiedVoxels g)) = occupied v \<and>
            (v \<in> set (emptyVoxels g)) = (\<not> occupied v)) \<and>
         (\<forall>i j k. in_grid g i j k \<longrightarrow>
            (\<exists>v \<in> set (occupiedVoxels g) \<union> set (emptyVoxels g). index v = (i, j, k)))"
proof -
  from assms obtain b where g: "g = built_grid atoms b vs"
    by (rule ctor_cases)
  have a: "occupied v = (\<exists>a \<in> set atoms. sphere_contains (center v) a) \<and>
            atomIds v = map getId (filter (sphere_contains (center v)) atoms) \<and>
            (atomIds v \<noteq> []) = occupied v \<and>
            (v \<in> set (occupiedVoxels g)) = occupied v \<and>
            (v \<in> set (emptyVoxels g)) = (\<not> occupied v)"
    if v: "v \<in> set (occupiedVoxels g) \<union> set (emptyVoxels g)" for v
  proof -
    from v obtain i j k where m: "v = make_voxel b vs atoms i j k"
      unfolding g by (rule initialize_voxels)
    have 1: "occupied v = (\<exists>a \<in> set atoms. sphere_contains (center v) a)"
      and 2: "atomIds v = map getId (filter (sphere_contains (center v)) atoms)"
      unfolding m by (rule make_voxel_simps)+
    have 3: "(atomIds v \<noteq> []) = occupied v"
      unfolding 1 2 by (auto simp: filter_empty_conv)
    have 4: "(v \<in> set (occupiedVoxels g)) = occupied v" "(v \<in> set (emptyVoxels g)) = (\<not> occupied v)"
      using v by (auto simp: g initialize_occupied initialize_empty)
    from 1 2 3 4 show ?thesis by blast
  qed
  have b: "\<exists>v \<in> set (occupiedVoxels g) \<union> set (emptyVoxels g). index v = (i, j, k)"
    if "in_grid g i j k" for i j k
  proof -
    have c: "(i, j, k) \<in> set (grid_cells b vs)"
      using that by (simp add: g set_grid_cells)
    let ?v = "cell_voxel (start_grid b vs) atoms (i, j, k)"
    have "?v \<in> set (occupiedVoxels g) \<union> set (emptyVoxels g)"
      using c by (auto simp: g initialize_occupied initialize_empty)
    moreover have "index ?v = (i, j, k)" by (rule index_cell_voxel)
    ultimately show ?thesis by blast
  qed
  from a b show ?thesis by blast
qed

theorem C2_occupancy_witness:
  "VoxelGrid_from_box example_box [example_atom] 1 = Inr example_grid \<and>
   map occupied (occupiedVoxels example_grid @ emptyVoxels example_grid) = [True, False] \<and>
   map atomIds (occupiedVoxels example_grid @ emptyVoxels example_grid) = [[7], []] \<and>
   sphere_contains \<lparr>px = 1 / 2, py = 1 / 2, pz = 1 / 2\<rparr> example_atom \<and>
   \<not> sphere_contains \<lparr>px = 3 / 2, py = 1 / 2, pz = 1 / 2\<rparr> example_atom"
  using C2_occupancy [OF disjI1 [OF example_grid_built]] example_grid_built
  by (simp add: example_grid_def left_voxel_def right_voxel_def sphere_contains_def example_atom_def)

text \<open>
  C4. For every constructed grid, \<^verbatim>\<open>getTotalVoxelCount()\<close> is the product of the three
  dimensions and is \<^verbatim>\<open>getOccupiedVoxelCount() + getEmptyVoxelCount()\<close>; every cell of the
  grid is routed into exactly one of the two collections: the indices of the voxels of both
  collections together are pairwise distinct and are exactly the cells of the grid.
\<close>

theorem C4_counts:
  assumes "VoxelGrid_from_box bb atoms vs = Inr g \<or> VoxelGrid_from_atoms atoms vs padding = Inr g"
  shows "getTotalVoxelCount g = dimensions g ! 0 * dimensions g ! 1 * dimensions g ! 2 \<and>
         getTotalVoxelCount g = getOccupiedVoxelCount g + getEmptyVoxelCount g \<and>
         distinct (map index (occupiedVoxels g @ emptyVoxels g)) \<and>
         set (map index (occupiedVoxels g @ emptyVoxels g)) = {(i, j, k). in_grid g i j k}"
proof -
  from assms obtain b where g: "g = built_grid atoms b vs"
    by (rule ctor_cases)
  let ?P = "\<lambda>c. occupied (cell_voxel (start_grid b vs) atoms c)"
  have m: "map index (occupiedVoxels g @ emptyVoxels g)
             = filter ?P (grid_cells b vs) @ filter (\<lambda>c. \<not> ?P c) (grid_cells b vs)"
    by (simp add: g initialize_occupied initialize_empty map_index_filter)
  have 1: "getTotalVoxelCount g = dimensions g ! 0 * dimensions g ! 1 * dimensions g ! 2"
    by (simp add: getTotalVoxelCount_def g initialize_frame)
  have "length (occupiedVoxels g) + length (emptyVoxels g)
          = length (map (cell_voxel (start_grid b vs) atoms) (grid_cells b vs))"
    unfolding g initialize_occupied initialize_empty by (rule sum_length_filter_compl)
  then have "getOccupiedVoxelCount g + getEmptyVoxelCount g = int (length (grid_cells b vs))"
    by (simp add: getOccupiedVoxelCount_def getEmptyVoxelCount_def)
  then have 2: "getTotalVoxelCount g = getOccupiedVoxelCount g + getEmptyVoxelCount g"
    by (simp add: length_grid_cells getTotalVoxelCount_def g initialize_frame)
  have "distinct (grid_cells b vs)"
    by (simp add: grid_cells_def distinct_cells split: prod.splits)
  then have 3: "distinct (map index (occupiedVoxels g @ emptyVoxels g))"
    unfolding m by auto
  have 4: "set (map index (occupiedVoxels g @ emptyVoxels g)) = {(i, j, k). in_grid g i j k}"
    unfolding m by (auto simp: g set_grid_cells)
  from 1 2 3 4 show ?thesis by blast
qed

theorem C4_counts_witness:
  "VoxelGrid_from_box example_box [example_atom] 1 = Inr example_grid \<and>
   dimensions example_grid = [2, 1, 1] \<and> getTotalVoxelCount example_grid = 2 \<and>
   getOccupiedVoxelCount example_grid = 1 \<and> getEmptyVoxelCount example_grid = 1 \<and>
   map index (occupiedVoxels example_grid @ emptyVoxels example_grid) = [(0, 0, 0), (1, 0, 0)]"
  using C4_counts [OF disjI1 [OF example_grid_built]] example_grid_built
  by (simp add: example_grid_def left_voxel_def right_voxel_def getTotalVoxelCount_def
      getOccupiedVoxelCount_def getEmptyVoxelCount_def)

text \<open>
  C9, as stated, fails: over the box from (0, 0, 0) to (2, 2, 1) with voxel size 0.001 the
  dimensions are 2000, 2000 and 1000, their product 4000000000 exceeds \<open>INT_MAX\<close>, and
  the constructor from an existing bounding box builds no grid although the atom list is
  empty and the voxel size positive.
\<close>

theorem C9_counterexample:
  "(0::real) < 1 / 1000 \<and>
   VoxelGrid_from_box \<lparr>getMin = \<lparr>px = 0, py = 0, pz = 0\<rparr>, getMax = \<lparr>px = 2, py = 2, pz = 1\<rparr>\<rparr>
     [] (1 / 1000) = Inl IntOverflow"
  by (simp add: VoxelGrid_from_box_def initialize_def fresh_grid_def getDimensions_def Let_def
      static_cast_int_def INT_MAX_def INT_MIN_def)

text \<open>
  C9, amended. Constructing a grid from an existing bounding box, an empty atom list and a
  positive voxel size succeeds whenever the number of cells on each axis and the product of
  the three dimensions lie in the range of \<^verbatim>\<open>int\<close>, and every cell is then classified empty:
  the occupied count is 0 and the empty count is the total voxel count (which is at least 1).
\<close>

theorem C9_box_without_atoms_in_range:
  assumes "0 < vs" "dims_fit bb vs" "total_fits bb vs"
  shows "\<exists>g. VoxelGrid_from_box bb [] vs = Inr g \<and>
           getOccupiedVoxelCount g = 0 \<and>
           getEmptyVoxelCount g = getTotalVoxelCount g \<and>
           1 \<le> getTotalVoxelCount g \<and>
           (\<forall>v \<in> set (emptyVoxels g). \<not> occupied v \<and> atomIds v = [])"
proof -
  let ?g = "built_grid [] bb vs"
  have c: "VoxelGrid_from_box bb [] vs = Inr ?g"
    using assms(1,3) by (simp add: VoxelGrid_from_box_def initialize_eq)
  have n: "\<not> occupied (cell_voxel (start_grid bb vs) [] c)" "atomIds (cell_voxel (start_grid bb vs) [] c) = []" for c
    by (cases c; simp add: cell_voxel_def make_voxel_simps)+
  have o: "occupiedVoxels ?g = []"
    by (simp add: initialize_occupied n filter_empty_conv)
  have e: "length (emptyVoxels ?g) = length (grid_cells bb vs)"
    by (simp add: initialize_empty n)
  have t: "getEmptyVoxelCount ?g = getTotalVoxelCount ?g"
    by (simp add: getEmptyVoxelCount_def getTotalVoxelCount_def e length_grid_cells initialize_frame)
  have p: "1 \<le> getTotalVoxelCount ?g"
    by (simp add: getTotalVoxelCount_def initialize_frame dims_product_pos)
  have v: "\<forall>v \<in> set (emptyVoxels ?g). \<not> occupied v \<and> atomIds v = []"
    by (auto simp: initialize_empty n)
  from c o t p v show ?thesis
    by (intro exI [of _ ?g]) (simp add: getOccupiedVoxelCount_def)
qed

theorem C9_box_without_atoms_in_range_witness:
  "(0::real) < 1 \<and> dims_fit example_box 1 \<and> total_fits example_box 1 \<and>
   VoxelGrid_from_box example_box [] 1 = Inr two_voxel_grid \<and>
   getOccupiedVoxelCount two_voxel_grid = 0 \<and> getEmptyVoxelCount two_voxel_grid = 2 \<and>
   getTotalVoxelCount two_voxel_grid = 2"
proof -
  have f: "dims_fit example_box 1" "total_fits example_box 1"
    by (simp_all add: dims_fit_def total_fits_def dims_of_def grid_dim_def getDimensions_def
        example_box_def static_cast_int_def INT_MAX_def INT_MIN_def)
  from C9_box_without_atoms_in_range [of 1 example_box, OF _ f] f two_voxel_grid_built
  show ?thesis
    by (simp add: two_voxel_grid_def getTotalVoxelCount_def
        getOccupiedVoxelCount_def getEmptyVoxelCount_def)
qed

text \<open>
  C10. For every constructed grid and all integers (i, j, k), \<^verbatim>\<open>getVoxel(i, j, k)\<close> is
  non-null iff (i, j, k) lies within the grid dimensions and the cell is occupied (it has a
  voxel in the occupied collection; equivalently, some atom's sphere contains the cell's
  centre). For a cell of the empty collection it returns the same \<^verbatim>\<open>nullptr\<close> as for
  coordinates out of range.
\<close>

theorem C10_getVoxel:
  assumes "VoxelGrid_from_box bb atoms vs = Inr g \<or> VoxelGrid_from_atoms atoms vs padding = Inr g"
  shows "(getVoxel g i j k \<noteq> None) =
           (in_grid g i j k \<and> (\<exists>v \<in> set (occupiedVoxels g). index v = (i, j, k))) \<and>
         (getVoxel g i j k \<noteq> None) =
           (in_grid g i j k \<and>
            (\<exists>a \<in> set atoms. sphere_contains
                (center (make_voxel (boundingBox g) (voxelSize g) atoms i j k)) a)) \<and>
         ((\<exists>v \<in> set (emptyVoxels g). index v = (i, j, k)) \<longrightarrow> getVoxel g i j k = None) \<and>
         (\<not> in_grid g i j k \<longrightarrow> getVoxel g i j k = None)"
proof -
  from assms obtain b where g: "g = built_grid atoms b vs"
    by (rule ctor_cases)
  let ?s = "start_grid b vs"
  have out: "getVoxel g i j k = None" if "\<not> in_grid g i j k"
    using that by (auto simp: getVoxel_def in_grid_def)
  have inr: "(getVoxel g i j k \<noteq> None) = occupied (make_voxel b vs atoms i j k)" if "in_grid g i j k"
  proof -
    have "getVoxel g i j k = voxelGrid g ! nat (getLinearIndex g i j k)"
      using that by (auto simp: getVoxel_def in_grid_def)
    then show ?thesis
      using initialize_table(2) [of atoms b vs i j k] that by (simp add: g)
  qed
  have occ: "(\<exists>v \<in> set (occupiedVoxels g). index v = (i, j, k)) =
               (in_grid g i j k \<and> occupied (make_voxel b vs atoms i j k))"
  proof -
    have "(\<exists>v \<in> set (occupiedVoxels g). index v = (i, j, k)) =
            ((i, j, k) \<in> set (map index (occupiedVoxels g)))"
      by force
    also have "\<dots> = ((i, j, k) \<in> set (grid_cells b vs) \<and> occupied (cell_voxel ?s atoms (i, j, k)))"
      by (simp add: g initialize_occupied map_index_filter)
    finally show ?thesis
      by (simp add: g set_grid_cells cell_voxel_start)
  qed
  have emp: "(\<exists>v \<in> set (emptyVoxels g). index v = (i, j, k)) =
               (in_grid g i j k \<and> \<not> occupied (make_voxel b vs atoms i j k))"
  proof -
    have "(\<exists>v \<in> set (emptyVoxels g). index v = (i, j, k)) =
            ((i, j, k) \<in> set (map index (emptyVoxels g)))"
      by force
    also have "\<dots> = ((i, j, k) \<in> set (grid_cells b vs) \<and> \<not> occupied (cell_voxel ?s atoms (i, j, k)))"
      by (simp add: g initialize_empty map_index_filter)
    finally show ?thesis
      by (simp add: g set_grid_cells cell_voxel_start)
  qed
  have 1: "(getVoxel g i j k \<noteq> None) =
           (in_grid g i j k \<and> (\<exists>v \<in> set (occupiedVoxels g). index v = (i, j, k)))"
    unfolding occ using out inr by (cases "in_grid g i j k") auto
  have bv: "boundingBox g = b" "voxelSize g = vs"
    by (simp_all add: g initialize_frame)
  have 2: "(getVoxel g i j k \<noteq> None) =
           (in_grid g i j k \<and>
            (\<exists>a \<in> set atoms. sphere_contains
                (center (make_voxel (boundingBox g) (voxelSize g) atoms i j k)) a))"
    unfolding bv make_voxel_simps(2) [symmetric] using out inr by (cases "in_grid g i j k") auto
  have 3: "(\<exists>v \<in> set (emptyVoxels g). index v = (i, j, k)) \<longrightarrow> getVoxel g i j k = None"
    unfolding emp using inr by (cases "in_grid g i j k") auto
  from 1 2 3 out show ?thesis by blast
qed

theorem C10_getVoxel_witness:
  "VoxelGrid_from_box example_box [example_atom] 1 = Inr example_grid \<and>
   getVoxel example_grid 0 0 0 = Some 0 \<and> getVoxel example_grid 1 0 0 = None \<and>
   getVoxel example_grid 2 0 0 = None \<and> getVoxel example_grid (- 1) 0 0 = None \<and>
   in_grid example_grid 1 0 0 \<and> \<not> in_grid example_grid 2 0 0"
  using C10_getVoxel [OF disjI1 [OF example_grid_built], of 1 0 0] example_grid_built
  by (simp add: example_grid_def getVoxel_def getLinearIndex_def in_grid_def)

text \<open>
  C7, as stated, fails: for two point atoms at x = 0 and x = 4000000000 and padding 0, the
  voxel size 2000000000 gives 2 voxels, and the smaller size 1 gives 1 voxel: the number of
  cells along x, 4000000000, is outside the range of \<^verbatim>\<open>int\<close>, its conversion yields
  \<open>INT_MIN\<close>, and the dimension becomes max(1, INT_MIN) = 1.
\<close>

theorem C7_counterexample:
  "(0::real) < 1 \<and> (1::real) \<le> 2000000000 \<and>
   VoxelGrid_from_atoms far_atoms 2000000000 0 = Inr coarse_grid \<and>
   getTotalVoxelCount coarse_grid = 2 \<and>
   VoxelGrid_from_atoms far_atoms 1 0 = Inr fine_grid \<and>
   getTotalVoxelCount fine_grid = 1"
  by (simp add: coarse_grid_built fine_grid_built getTotalVoxelCount_def coarse_grid_def
      fine_grid_def)

text \<open>
  C7, amended. For a fixed atom list and padding, let the grid with edge s be constructed
  and 0 < s' \<le> s. If at the smaller edge s' the number of cells on each axis and the
  product of the three dimensions lie in the range of \<^verbatim>\<open>int\<close>, the grid with edge s' is
  constructed too and has at least as many voxels.
\<close>

theorem C7_total_antitone_in_range:
  assumes "0 < s'" "s' \<le> s"
    and "VoxelGrid_from_atoms atoms s padding = Inr g"
    and "dims_fit (boundingBox g) s'" "total_fits (boundingBox g) s'"
  shows "\<exists>g'. VoxelGrid_from_atoms atoms s' padding = Inr g' \<and>
           getTotalVoxelCount g \<le> getTotalVoxelCount g'"
proof -
  from assms(3) obtain b where b: "BoundingBox_ctor atoms padding = Inr b"
    and g: "g = built_grid atoms b s"
    by (auto simp: VoxelGrid_from_atoms_def initialize_eq split: sum.splits if_splits)
  have bb: "boundingBox g = b" by (simp add: g initialize_frame)
  have "VoxelGrid_from_atoms atoms s' padding = Inr (built_grid atoms b s')"
    using assms(1,5) b by (simp add: VoxelGrid_from_atoms_def initialize_eq bb)
  moreover have "getTotalVoxelCount g \<le> getTotalVoxelCount (built_grid atoms b s')"
    unfolding g getTotalVoxelCount_def using assms(1,2,4) unfolding bb by (rule total_antitone)
  ultimately show ?thesis by blast
qed

theorem C7_total_antitone_in_range_witness:
  "(0::real) < 1 / 4 \<and> (1 / 4 :: real) \<le> 1 \<and>
   dims_fit (calculateBounds [example_atom] 0) (1 / 4) \<and>
   total_fits (calculateBounds [example_atom] 0) (1 / 4) \<and>
   (\<exists>g. VoxelGrid_from_atoms [example_atom] 1 0 = Inr g \<and>
        boundingBox g = calculateBounds [example_atom] 0 \<and> getTotalVoxelCount g = 1) \<and>
   (\<exists>g'. VoxelGrid_from_atoms [example_atom] (1 / 4) 0 = Inr g' \<and> getTotalVoxelCount g' = 8)"
proof -
  let ?b = "calculateBounds [example_atom] 0"
  have b: "?b = \<lparr>getMin = \<lparr>px = 1 / 4, py = 1 / 4, pz = 1 / 4\<rparr>,
                 getMax = \<lparr>px = 3 / 4, py = 3 / 4, pz = 3 / 4\<rparr>\<rparr>"
    by (simp add: calculateBounds_def example_atom_def DBL_MAX_def Let_def)
  have f: "dims_fit ?b (1 / 4)" "total_fits ?b (1 / 4)" "total_fits ?b 1"
    by (simp_all add: b dims_fit_def total_fits_def dims_of_def grid_dim_def getDimensions_def
        static_cast_int_def INT_MAX_def INT_MIN_def)
  have g: "VoxelGrid_from_atoms [example_atom] 1 0 = Inr (built_grid [example_atom] ?b 1)"
    using f(3) by (simp add: VoxelGrid_from_atoms_def BoundingBox_ctor_def initialize_eq)
  have g': "VoxelGrid_from_atoms [example_atom] (1 / 4) 0
              = Inr (built_grid [example_atom] ?b (1 / 4))"
    using f(2) by (simp add: VoxelGrid_from_atoms_def BoundingBox_ctor_def initialize_eq)
  have t: "getTotalVoxelCount (built_grid [example_atom] ?b 1) = 1"
    "getTotalVoxelCount (built_grid [example_atom] ?b (1 / 4)) = 8"
    by (simp_all add: getTotalVoxelCount_def initialize_frame dims_of_def grid_dim_def b
        getDimensions_def static_cast_int_def INT_MAX_def INT_MIN_def)
  have bb: "boundingBox (built_grid [example_atom] ?b 1) = ?b"
    by (simp add: initialize_frame)
  from C7_total_antitone_in_range [of "1 / 4" 1 "[example_atom]" 0, OF _ _ g] f g g' t bb
  show ?thesis by simp
qed

text \<open>
  C8, as stated, fails: with an empty atom list and voxel size 0 the constructor from atoms
  fails in the member initialiser, with the bounding box's \<^verbatim>\<open>std::runtime_error\<close>
  (EmptyInput), before the voxel size is checked.
\<close>

theorem C8_counterexample:
  "VoxelGrid_from_atoms [] 0 0 = Inl EmptyInput \<and> VoxelGrid_from_atoms [] 0 0 \<noteq> Inl InvalidArgument"
  by (simp add: VoxelGrid_from_atoms_def BoundingBox_ctor_def)

text \<open>
  C8, amended. Constructing a grid with voxel size \<le> 0 always fails and yields no grid.
  The constructor from an existing bounding box fails with InvalidArgument; the constructor
  from atoms fails with InvalidArgument when the atom list is non-empty and with EmptyInput
  when it is empty.
\<close>

theorem C8_nonpositive_size_fails:
  assumes "vs \<le> 0"
  shows "VoxelGrid_from_box bb atoms vs = Inl InvalidArgument \<and>
         VoxelGrid_from_atoms atoms vs padding
           = Inl (if atoms = [] then EmptyInput else InvalidArgument)"
  using assms by (simp add: VoxelGrid_from_box_def VoxelGrid_from_atoms_def BoundingBox_ctor_def)

theorem C8_nonpositive_size_fails_witness:
  "(- 1 :: real) \<le> 0 \<and>
   VoxelGrid_from_box example_box [example_atom] (- 1) = Inl InvalidArgument \<and>
   VoxelGrid_from_atoms [example_atom] (- 1) 0 = Inl InvalidArgument \<and>
   VoxelGrid_from_atoms [] (- 1) 0 = Inl EmptyInput"
  using C8_nonpositive_size_fails [of "- 1" example_box "[example_atom]" 0]
    C8_nonpositive_size_fails [of "- 1" example_box "[]" 0]
  by simp

text \<open>
  C6. For every non-empty atom list and every padding \<ge> 0 the bounding box is constructed,
  and for every atom the interval [position - radius, position + radius] lies within
  [min, max] on each axis; min \<le> max holds componentwise as soon as one atom has a radius
  \<ge> 0, which the data model requires of every atom.
\<close>

theorem C6_bounding_box:
  assumes "atoms \<noteq> []" "0 \<le> padding"
  shows "\<exists>b. BoundingBox_ctor atoms padding = Inr b \<and>
           (\<forall>a \<in> set atoms.
              px (getMin b) \<le> getX a - getAtomicRadius a \<and> getX a + getAtomicRadius a \<le> px (getMax b) \<and>
              py (getMin b) \<le> getY a - getAtomicRadius a \<and> getY a + getAtomicRadius a \<le> py (getMax b) \<and>
              pz (getMin b) \<le> getZ a - getAtomicRadius a \<and> getZ a + getAtomicRadius a \<le> pz (getMax b)) \<and>
           ((\<exists>a \<in> set atoms. 0 \<le> getAtomicRadius a) \<longrightarrow>
              px (getMin b) \<le> px (getMax b) \<and> py (getMin b) \<le> py (getMax b) \<and>
              pz (getMin b) \<le> pz (getMax b))"
proof -
  obtain b1 b2 b3 b4 b5 b6 where
    l: "calculateBounds_loop atoms (DBL_MAX, DBL_MAX, DBL_MAX, - DBL_MAX, - DBL_MAX, - DBL_MAX)
          = (b1, b2, b3, b4, b5, b6)"
    by (metis prod_cases6)
  let ?b = "calculateBounds atoms padding"
  have m: "getMin ?b = \<lparr>px = b1 - padding, py = b2 - padding, pz = b3 - padding\<rparr>"
    "getMax ?b = \<lparr>px = b4 + padding, py = b5 + padding, pz = b6 + padding\<rparr>"
    by (simp_all add: calculateBounds_def l)
  from calculateBounds_loop_bounds [OF l] have
    s: "\<forall>a \<in> set atoms.
            b1 \<le> getX a - getAtomicRadius a \<and> getX a + getAtomicRadius a \<le> b4 \<and>
            b2 \<le> getY a - getAtomicRadius a \<and> getY a + getAtomicRadius a \<le> b5 \<and>
            b3 \<le> getZ a - getAtomicRadius a \<and> getZ a + getAtomicRadius a \<le> b6"
    by blast
  have o: "b1 \<le> b4 \<and> b2 \<le> b5 \<and> b3 \<le> b6"
    if "\<exists>a \<in> set atoms. 0 \<le> getAtomicRadius a"
  proof -
    from that obtain a where "a \<in> set atoms" "0 \<le> getAtomicRadius a" by blast
    with s show ?thesis by fastforce
  qed
  have c: "BoundingBox_ctor atoms padding = Inr ?b"
    using assms(1) by (simp add: BoundingBox_ctor_def)
  have sp: "\<forall>a \<in> set atoms.
              px (getMin ?b) \<le> getX a - getAtomicRadius a \<and> getX a + getAtomicRadius a \<le> px (getMax ?b) \<and>
              py (getMin ?b) \<le> getY a - getAtomicRadius a \<and> getY a + getAtomicRadius a \<le> py (getMax ?b) \<and>
              pz (getMin ?b) \<le> getZ a - getAtomicRadius a \<and> getZ a + getAtomicRadius a \<le> pz (getMax ?b)"
    using s assms(2) by (fastforce simp: m)
  have mm: "(\<exists>a \<in> set atoms. 0 \<le> getAtomicRadius a) \<longrightarrow>
              px (getMin ?b) \<le> px (getMax ?b) \<and> py (getMin ?b) \<le> py (getMax ?b) \<and>
              pz (getMin ?b) \<le> pz (getMax ?b)"
  proof
    assume "\<exists>a \<in> set atoms. 0 \<le> getAtomicRadius a"
    from o [OF this] assms(2) show
      "px (getMin ?b) \<le> px (getMax ?b) \<and> py (getMin ?b) \<le> py (getMax ?b) \<and>
       pz (getMin ?b) \<le> pz (getMax ?b)"
      by (simp add: m)
  qed
  from c sp mm show ?thesis by blast
qed

theorem C6_bounding_box_witness:
  "[example_atom] \<noteq> [] \<and> (0::real) \<le> 0 \<and>
   (\<exists>a \<in> set [example_atom]. 0 \<le> getAtomicRadius a) \<and>
   BoundingBox_ctor [example_atom] 0 =
     Inr \<lparr>getMin = \<lparr>px = 1 / 4, py = 1 / 4, pz = 1 / 4\<rparr>,
          getMax = \<lparr>px = 3 / 4, py = 3 / 4, pz = 3 / 4\<rparr>\<rparr>"
  using C6_bounding_box [of "[example_atom]" 0]
  by (simp add: BoundingBox_ctor_def calculateBounds_def example_atom_def DBL_MAX_def Let_def)

text \<open>
  C1. The claim: the node list of every generated mesh has no two nodes within tolerance of
  each other, the map's hash function being consistent with its approximate comparator.
  The code does not achieve this. \<^verbatim>\<open>Point3DHash\<close> hashes the exact coordinates, so for any
  \<^verbatim>\<open>std::hash<double>\<close> that tells 0 from 5e-13 it is not consistent with
  \<^verbatim>\<open>Point3DEqual\<close>, and the grid of a single point atom at the origin with voxel size 5e-13
  (one empty voxel) yields a mesh whose first two nodes (0, 0, 0) and (5e-13, 0, 0) are
  within tolerance of each other.
\<close>

theorem C1_nodes_within_tolerance:
  assumes "hashDouble 0 \<noteq> hashDouble (5 / 10 ^ 13)"
  shows "VoxelGrid_from_atoms [point_atom] (5 / 10 ^ 13) 0 = Inr tiny_grid \<and>
         \<not> nodes_unique (nodes (generateHexMesh hashDouble tiny_grid)) \<and>
         \<not> hash_consistent hashDouble"
proof -
  let ?c0 = "\<lparr>px = 0, py = 0, pz = 0\<rparr>" and ?c1 = "\<lparr>px = 5 / 10 ^ 13, py = 0, pz = 0\<rparr>"
  from tiny_mesh_nodes [OF assms] obtain ys where
    n: "nodes (generateHexMesh hashDouble tiny_grid) = [?c0, ?c1] @ ys" by blast
  have "\<not> nodes_unique ([?c0, ?c1] @ ys)"
    unfolding nodes_unique_def
    by (simp add: not_le) (intro exI [of _ 0], simp, intro exI [of _ 1], simp)
  then have 1: "\<not> nodes_unique (nodes (generateHexMesh hashDouble tiny_grid))"
    unfolding n .
  have "Point3DEqual ?c0 ?c1" by (simp add: Point3DEqual_def)
  moreover have "Point3DHash hashDouble ?c0 \<noteq> Point3DHash hashDouble ?c1"
    using assms by (simp only: Point3DHash_first_axis not_False_eq_True)
  ultimately have 2: "\<not> hash_consistent hashDouble"
    unfolding hash_consistent_def by blast
  from tiny_grid_built 1 2 show ?thesis by blast
qed

theorem C1_nodes_within_tolerance_witness:
  "example_hash 0 \<noteq> example_hash (5 / 10 ^ 13) \<and>
   VoxelGrid_from_atoms [point_atom] (5 / 10 ^ 13) 0 = Inr tiny_grid \<and>
   \<not> nodes_unique (nodes (generateHexMesh example_hash tiny_grid)) \<and>
   \<not> hash_consistent example_hash \<and>
   getNodeCount (generateHexMesh example_hash tiny_grid) = 8"
proof -
  have h: "example_hash 0 \<noteq> example_hash (5 / 10 ^ 13)"
    by (simp add: example_hash_def)
  have n: "getNodeCount (generateHexMesh example_hash tiny_grid) = 8"
    by (simp add: getNodeCount_def generateHexMesh_def tiny_grid_def tiny_voxel_def
        computeCornerNodes_def assignUniqueNodeIndices_def Point3DHash_def Point3DEqual_def
        example_hash_def)
  from C1_nodes_within_tolerance [OF h] h n show ?thesis by simp
qed

text \<open>
  C5. The claim: two equal cubic voxels that share one face give a mesh of 12 nodes and 2
  elements. The code does not achieve this for the face-adjacent cells of a grid it builds:
  the far corner of a cell and the near corner of the next cell are rounded separately and
  can differ in the last bit, and \<^verbatim>\<open>Point3DHash\<close> hashes the exact coordinates, so the lookup
  misses although the comparator holds. In \<open>rounded_grid\<close> the two empty cells are
  adjacent, the first ends at x = 1/4 and the second starts at x = 1/4 + 2^-54; for any
  \<^verbatim>\<open>std::hash<double>\<close> that tells these two numbers apart the mesh has 16 nodes.
\<close>

theorem C5_adjacent_cells_not_merged:
  assumes "hashDouble (1 / 2 ^ 2) \<noteq> hashDouble (4503599627370497 / 2 ^ 54)"
  shows "emptyVoxels rounded_grid = [rounded_cell2, rounded_cell3] \<and>
         index rounded_cell2 = (2, 0, 0) \<and> index rounded_cell3 = (3, 0, 0) \<and>
         px (vmin rounded_cell3) - px (vmax rounded_cell2) = 1 / 2 ^ 54 \<and>
         getElementCount (generateHexMesh hashDouble rounded_grid) = 2 \<and>
         getNodeCount (generateHexMesh hashDouble rounded_grid) = 16"
  using assms
  by (simp add: getNodeCount_def getElementCount_def generateHexMesh_def rounded_grid_def
      rounded_cell2_def rounded_cell3_def computeCornerNodes_def assignUniqueNodeIndices_def
      Point3DEqual_def Point3DHash_first_axis)

theorem C5_adjacent_cells_not_merged_witness:
  "split_hash (1 / 2 ^ 2) \<noteq> split_hash (4503599627370497 / 2 ^ 54) \<and>
   emptyVoxels rounded_grid = [rounded_cell2, rounded_cell3] \<and>
   getElementCount (generateHexMesh split_hash rounded_grid) = 2 \<and>
   getNodeCount (generateHexMesh split_hash rounded_grid) = 16"
proof -
  have h: "split_hash (1 / 2 ^ 2) \<noteq> split_hash (4503599627370497 / 2 ^ 54)"
    by (simp add: split_hash_def)
  from C5_adjacent_cells_not_merged [OF h] h show ?thesis by simp
qed


end
